theory Spec2Isabelle
  imports Complex_Main "HOL-Library.Word"
begin

section \<open>The on-chain ledger: YieldOptimizer.sol\<close>

text \<open>
  Solidity's \<open>address\<close> and \<open>uint256\<close> are machine words. Every \<open>require\<close> that fails and
  every external call that reverts is a value \<open>Inl e\<close>; a successful call returns
  \<open>Inr (result, new state)\<close>. The EVM undoes every effect of a reverted transaction:
  that is \<open>transact\<close> below.
\<close>

type_synonym address = "160 word"

type_synonym uint256 = "256 word"

type_synonym bytes = "8 word list"

record Position =
  vault :: address
  asset :: address
  shares :: uint256
  assets :: uint256
  active :: bool

record OptimizeParams =
  routers :: "address list"
  calldatas :: "bytes list"
  inputTokens :: "address list"
  outputTokens :: "address list"
  inputAmounts :: "uint256 list"
  targetVault :: address
  minSharesOut :: uint256

text \<open>
  The contracts the ledger calls (ERC-4626 vaults, ERC-20 tokens, swap routers) are not
  part of the repository. They are a parameter: a state \<open>'w\<close> of everything outside the
  ledger's own storage, and one function per external call the ledger makes. \<open>None\<close>
  means that the callee reverted. The low-level \<open>call\<close> to a router never reverts the
  caller: it returns a success flag.
\<close>

record 'w chain =
  erc4626_asset :: "address \<Rightarrow> 'w \<Rightarrow> address option"
  erc4626_deposit :: "address \<Rightarrow> uint256 \<Rightarrow> address \<Rightarrow> 'w \<Rightarrow> (uint256 \<times> 'w) option"
  erc4626_redeem :: "address \<Rightarrow> uint256 \<Rightarrow> address \<Rightarrow> address \<Rightarrow> 'w \<Rightarrow> (uint256 \<times> 'w) option"
  erc4626_convertToAssets :: "address \<Rightarrow> uint256 \<Rightarrow> 'w \<Rightarrow> uint256 option"
  erc20_balanceOf :: "address \<Rightarrow> address \<Rightarrow> 'w \<Rightarrow> uint256 option"
  erc20_safeTransferFrom :: "address \<Rightarrow> address \<Rightarrow> address \<Rightarrow> uint256 \<Rightarrow> 'w \<Rightarrow> 'w option"
  erc20_safeIncreaseAllowance :: "address \<Rightarrow> address \<Rightarrow> uint256 \<Rightarrow> 'w \<Rightarrow> 'w option"
  low_level_call :: "address \<Rightarrow> bytes \<Rightarrow> 'w \<Rightarrow> bool \<times> 'w"

text \<open>
  The ledger's storage, with \<open>address(this)\<close> and the outside world. The three mutating
  entry points are \<open>nonReentrant\<close>, so no external call can change \<open>userPositions\<close>
  while one of them runs; the whitelists and the pause flag change only through the
  owner's setters, which are taken not to run inside an external call.
\<close>

record 'w ledger =
  userPositions :: "address \<Rightarrow> Position list"
  whitelistedVaults :: "address \<Rightarrow> bool"
  whitelistedRouters :: "address \<Rightarrow> bool"
  paused :: bool
  this :: address
  world :: 'w

datatype revert = Require string | CallReverted | Panic

definition transact ::
  "('w ledger \<Rightarrow> revert + ('a \<times> 'w ledger)) \<Rightarrow> 'w ledger \<Rightarrow> (revert + 'a) \<times> 'w ledger" where
  "transact f s = (case f s of Inl e \<Rightarrow> (Inl e, s) | Inr (r, s') \<Rightarrow> (Inr r, s'))"

text \<open>\<open>deposit(_vault, _amount, _minSharesOut)\<close>, called by \<open>sender\<close> with \<open>msg.value = val\<close>.\<close>

definition deposit ::
  "'w chain \<Rightarrow> address \<Rightarrow> uint256 \<Rightarrow> address \<Rightarrow> uint256 \<Rightarrow> uint256 \<Rightarrow> 'w ledger
    \<Rightarrow> revert + (uint256 \<times> 'w ledger)" where
  "deposit ext sender val v amount minOut s =
    (if paused s then Inl (Require ''Contract paused'')
     else if \<not> whitelistedVaults s v then Inl (Require ''Vault not whitelisted'')
     else if \<not> amount > 0 then Inl (Require ''Invalid amount'')
     else case erc4626_asset ext v (world s) of
       None \<Rightarrow> Inl CallReverted
     | Some a \<Rightarrow>
        if val \<noteq> 0 then Inl (Require ''ETH not accepted, only ERC-20 tokens supported'')
        else if a = 0 then Inl (Require ''Native ETH not supported'')
        else case erc20_safeTransferFrom ext a sender (this s) amount (world s) of
          None \<Rightarrow> Inl CallReverted
        | Some w1 \<Rightarrow>
           (case erc20_safeIncreaseAllowance ext a v amount w1 of
              None \<Rightarrow> Inl CallReverted
            | Some w2 \<Rightarrow>
               (case erc4626_deposit ext v amount (this s) w2 of
                  None \<Rightarrow> Inl CallReverted
                | Some (sh, w3) \<Rightarrow>
                   if \<not> sh \<ge> minOut then Inl (Require ''Insufficient shares'')
                   else Inr (sh,
                     s\<lparr>userPositions := (userPositions s)(sender := userPositions s sender @
                          [\<lparr>vault = v, asset = a, shares = sh, assets = amount, active = True\<rparr>]),
                       world := w3\<rparr>))))"

text \<open>
  \<open>withdraw(_positionIndex, _shares, _minAssetsOut)\<close>. The checked subtraction
  \<open>position.shares -= _shares\<close> panics on underflow.
\<close>

definition withdraw ::
  "'w chain \<Rightarrow> address \<Rightarrow> uint256 \<Rightarrow> uint256 \<Rightarrow> uint256 \<Rightarrow> 'w ledger
    \<Rightarrow> revert + (uint256 \<times> 'w ledger)" where
  "withdraw ext sender idx sh minAssetsOut s =
    (if paused s then Inl (Require ''Contract paused'')
     else if \<not> unat idx < length (userPositions s sender) then Inl (Require ''Invalid position'')
     else let position = userPositions s sender ! unat idx in
       if \<not> active position then Inl (Require ''Position inactive'')
       else if \<not> (sh > 0 \<and> sh \<le> shares position) then Inl (Require ''Invalid shares'')
       else case erc4626_redeem ext (vault position) sh (this s) sender (world s) of
         None \<Rightarrow> Inl CallReverted
       | Some (out, w1) \<Rightarrow>
          if \<not> out \<ge> minAssetsOut then Inl (Require ''Insufficient assets'')
          else if shares position < sh then Inl Panic
          else let left = shares position - sh in
            (case erc4626_convertToAssets ext (vault position) left w1 of
               None \<Rightarrow> Inl CallReverted
             | Some valuation \<Rightarrow>
                Inr (out,
                  s\<lparr>userPositions := (userPositions s)(sender := (userPositions s sender)
                       [unat idx := position\<lparr>shares := left, assets := valuation,
                          active := (if left = 0 then False else active position)\<rparr>]),
                    world := w1\<rparr>)))"

text \<open>
  The swap loop of \<open>optimizePosition\<close>: \<open>for (i = 0; i < _params.routers.length; i++)\<close>,
  run over the indices it visits. The output token of a leg is read and not used.
\<close>

fun executeSwaps ::
  "'w chain \<Rightarrow> (address \<Rightarrow> bool) \<Rightarrow> OptimizeParams \<Rightarrow> nat list \<Rightarrow> 'w \<Rightarrow> revert + 'w" where
  "executeSwaps ext wl p [] w = Inr w"
| "executeSwaps ext wl p (i # is) w =
    (if \<not> wl (routers p ! i) then Inl (Require ''Router not whitelisted'')
     else if inputTokens p ! i = 0 then Inl (Require ''Native ETH not supported'')
     else case erc20_safeIncreaseAllowance ext (inputTokens p ! i) (routers p ! i)
                 (inputAmounts p ! i) w of
       None \<Rightarrow> Inl CallReverted
     | Some w1 \<Rightarrow>
        (case low_level_call ext (routers p ! i) (calldatas p ! i) w1 of
           (success, w2) \<Rightarrow>
             if \<not> success then Inl (Require ''Swap failed'')
             else executeSwaps ext wl p is w2))"

definition swapPhase :: "'w chain \<Rightarrow> (address \<Rightarrow> bool) \<Rightarrow> OptimizeParams \<Rightarrow> 'w \<Rightarrow> revert + 'w" where
  "swapPhase ext wl p w =
    (if length (routers p) > 0 then
       if \<not> (length (routers p) = length (calldatas p) \<and>
              length (routers p) = length (inputTokens p) \<and>
              length (routers p) = length (outputTokens p) \<and>
              length (routers p) = length (inputAmounts p))
       then Inl (Require ''Array length mismatch'')
       else executeSwaps ext wl p [0 ..< length (routers p)] w
     else Inr w)"

text \<open>\<open>optimizePosition(_positionIndex, _params)\<close>, called by \<open>sender\<close>.\<close>

definition optimizePosition ::
  "'w chain \<Rightarrow> address \<Rightarrow> uint256 \<Rightarrow> OptimizeParams \<Rightarrow> 'w ledger
    \<Rightarrow> revert + (uint256 \<times> 'w ledger)" where
  "optimizePosition ext sender idx p s =
    (if paused s then Inl (Require ''Contract paused'')
     else if \<not> unat idx < length (userPositions s sender) then Inl (Require ''Invalid position'')
     else if \<not> whitelistedVaults s (targetVault p) then Inl (Require ''Target vault not whitelisted'')
     else let position = userPositions s sender ! unat idx in
       if \<not> active position then Inl (Require ''Position inactive'')
       else case erc4626_redeem ext (vault position) (shares position) (this s) (this s) (world s) of
         None \<Rightarrow> Inl CallReverted
       | Some (assetsRedeemed, w1) \<Rightarrow>
          (case swapPhase ext (whitelistedRouters s) p w1 of
             Inl e \<Rightarrow> Inl e
           | Inr w2 \<Rightarrow>
              (case erc4626_asset ext (targetVault p) w2 of
                 None \<Rightarrow> Inl CallReverted
               | Some targetAsset \<Rightarrow>
                  if targetAsset = 0 then Inl (Require ''Native ETH not supported'')
                  else case erc20_balanceOf ext targetAsset (this s) w2 of
                    None \<Rightarrow> Inl CallReverted
                  | Some targetAssetBalance \<Rightarrow>
                     if \<not> targetAssetBalance > 0 then Inl (Require ''No assets after swap'')
                     else case erc20_safeIncreaseAllowance ext targetAsset (targetVault p)
                                 targetAssetBalance w2 of
                       None \<Rightarrow> Inl CallReverted
                     | Some w3 \<Rightarrow>
                        (case erc4626_deposit ext (targetVault p) targetAssetBalance (this s) w3 of
                           None \<Rightarrow> Inl CallReverted
                         | Some (newShares, w4) \<Rightarrow>
                            if \<not> newShares \<ge> minSharesOut p then Inl (Require ''Insufficient shares'')
                            else Inr (newShares,
                              s\<lparr>userPositions := (userPositions s)(sender := (userPositions s sender)
                                   [unat idx := position\<lparr>vault := targetVault p, asset := targetAsset,
                                      shares := newShares, assets := targetAssetBalance\<rparr>]),
                                world := w4\<rparr>)))))"

text \<open>
  The state in which \<open>optimizePosition\<close> reaches its swap loop: the guards passed and the
  source vault paid out, leaving the outside world in \<open>w1\<close>.
\<close>

definition reachesSwaps ::
  "'w chain \<Rightarrow> address \<Rightarrow> uint256 \<Rightarrow> OptimizeParams \<Rightarrow> 'w ledger \<Rightarrow> 'w \<Rightarrow> bool" where
  "reachesSwaps ext sender idx p s w1 =
    (\<not> paused s \<and> unat idx < length (userPositions s sender)
     \<and> whitelistedVaults s (targetVault p)
     \<and> active (userPositions s sender ! unat idx)
     \<and> map_option snd (erc4626_redeem ext (vault (userPositions s sender ! unat idx))
          (shares (userPositions s sender ! unat idx)) (this s) (this s) (world s)) = Some w1)"

text \<open>
  The invariant of the specification: a position without shares is inactive, and its
  stored \<open>assets\<close> is the vault's present valuation of its stored shares.
\<close>

definition positionInvariant :: "'w chain \<Rightarrow> 'w \<Rightarrow> Position \<Rightarrow> bool" where
  "positionInvariant ext w pos \<longleftrightarrow>
     (shares pos = 0 \<longrightarrow> \<not> active pos)
     \<and> erc4626_convertToAssets ext (vault pos) (shares pos) w = Some (assets pos)"

section \<open>The off-chain services\<close>

text \<open>
  The backend is asynchronous TypeScript around HTTP and RPC calls. Its external
  collaborators (the yield API, the chain client, the quote API, the wallet, the record
  store) are a parameter: a state \<open>'x\<close> of everything outside the process and one
  function per call, each returning its answer and the next outside state, so a service
  may answer the same question differently at different times. An answer \<open>Inl msg\<close> (or
  \<open>None\<close>) is a thrown error. The decimal strings that carry \<open>bigint\<close> amounts are
  taken as the numbers they denote. The concurrent callbacks of \<open>Promise.all\<close> are run
  in index order. Several interfaces of the source share the field names \<open>vault\<close>,
  \<open>asset\<close>, \<open>apy\<close> and \<open>success\<close>; a field keeps its name behind a short prefix of
  its interface.
\<close>

subsection \<open>JavaScript numbers\<close>

text \<open>
  A JavaScript number is an IEEE 754 double. A finite double is a rational number and
  is carried as that rational; comparing two doubles is exact. A sum, a difference or a
  quotient is the exact result rounded to the nearest double, ties to even: 53
  significant bits, down to the spacing \<open>2^-1074\<close> of the subnormal doubles. So the
  quantum of a result \<open>q\<close> is \<open>2^e\<close> with \<open>e = max (\<lfloor>log2 |q|\<rfloor> - 52) (-1074)\<close>, and the
  rounded result is the multiple of the quantum nearest to \<open>q\<close>. \<open>NaN\<close> is not modelled
  (JSON carries none), and a result beyond the largest double, which the source turns
  into \<open>Infinity\<close>, stays a finite number above it.
\<close>

definition pow2 :: "int \<Rightarrow> rat" where
  "pow2 e = (if e \<ge> 0 then 2 ^ nat e else 1 / 2 ^ nat (- e))"

function bitLength :: "int \<Rightarrow> int" where
  "bitLength n = (if n \<le> 0 then 0 else 1 + bitLength (n div 2))"
  by auto
termination
  by (relation "measure nat") auto

text \<open>\<open>\<lfloor>log2 |q|\<rfloor>\<close> for \<open>q \<noteq> 0\<close>, from the bit lengths of numerator and denominator.\<close>

definition ilog2 :: "rat \<Rightarrow> int" where
  "ilog2 q =
    (case quotient_of \<bar>q\<bar> of
       (a, b) \<Rightarrow>
         let e = bitLength a - bitLength b
         in if pow2 e \<le> \<bar>q\<bar> then e else e - 1)"

definition roundEven :: "rat \<Rightarrow> int" where
  "roundEven r =
    (let f = \<lfloor>r\<rfloor>; d = r - of_int f
     in if d < 1 / 2 then f else if d > 1 / 2 then f + 1 else if even f then f else f + 1)"

definition round64 :: "rat \<Rightarrow> rat" where
  "round64 q =
    (if q = 0 then 0
     else let e = max (ilog2 q - 52) (- 1074)
          in of_int (roundEven (q / pow2 e)) * pow2 e)"

text \<open>The operators \<open>+\<close>, \<open>-\<close> and \<open>/\<close> of the source, on doubles.\<close>

definition fadd :: "rat \<Rightarrow> rat \<Rightarrow> rat" where
  "fadd a b = round64 (a + b)"

definition fsub :: "rat \<Rightarrow> rat \<Rightarrow> rat" where
  "fsub a b = round64 (a - b)"

definition fdiv :: "rat \<Rightarrow> rat \<Rightarrow> rat" where
  "fdiv a b = round64 (a / b)"

subsection \<open>Data\<close>

text \<open>\<open>toLowerCase\<close> on the ASCII letters, which is all that an address holds.\<close>

definition toLowerChar :: "char \<Rightarrow> char" where
  "toLowerChar c =
    (if (65::nat) \<le> of_char c \<and> of_char c \<le> (90::nat) then char_of (of_char c + (32::nat)) else c)"

definition toLowerCase :: "string \<Rightarrow> string" where
  "toLowerCase s = map toLowerChar s"

text \<open>\<open>a || b\<close> for an optional number and for an optional string.\<close>

definition orNumber :: "rat option \<Rightarrow> rat \<Rightarrow> rat" where
  "orNumber a b = (case a of None \<Rightarrow> b | Some v \<Rightarrow> if v = 0 then b else v)"

definition orString :: "string option \<Rightarrow> string \<Rightarrow> string" where
  "orString a b = (case a of None \<Rightarrow> b | Some v \<Rightarrow> if v = [] then b else v)"

record HistoricalPoint =
  point_timestamp :: nat
  point_apy :: rat
  point_apr :: rat

record APYData =
  data_vault :: "string option"
  data_asset :: "string option"
  data_historicalAPY :: "HistoricalPoint list"
  data_averageAPY :: "rat option"
  data_currentAPY :: "rat option"

record HistoricalAPYResponse =
  apy_success :: bool
  apy_data :: "APYData option"
  apy_error :: "string option"

record YieldOpportunity =
  opp_vault :: string
  opp_asset :: string
  opp_apy :: rat
  opp_apr :: rat
  opp_timestamp :: nat

record ChainPosition =
  cp_vault :: string
  cp_asset :: string
  cp_shares :: nat
  cp_assets :: nat
  cp_active :: bool

record UserPosition =
  pos_userAddress :: string
  pos_positionIndex :: nat
  pos_vault :: string
  pos_asset :: string
  pos_shares :: nat
  pos_assets :: nat
  pos_apy :: "rat option"
  pos_active :: bool

record QuoteParams =
  q_chainID :: string
  q_inputToken :: string
  q_outputToken :: string
  q_userAddress :: string
  q_outputReceiver :: string
  q_inputAmount :: nat

record QuoteResponse =
  quote_success :: bool
  quote_result :: "(string \<times> string) option"

record TxParams =
  tx_routers :: "string list"
  tx_calldatas :: "string list"
  tx_inputTokens :: "string list"
  tx_outputTokens :: "string list"
  tx_inputAmounts :: "nat list"
  tx_targetVault :: string
  tx_minSharesOut :: nat

record YieldOptimizationDoc =
  doc_userAddress :: string
  doc_positionIndex :: nat
  doc_fromVault :: string
  doc_toVault :: string
  doc_assetsReallocated :: nat
  doc_previousAPY :: rat
  doc_newAPY :: rat
  doc_transactionHash :: "string option"
  doc_timestamp :: nat

datatype failure = Thrown string | BelowThreshold rat rat | AlreadyInBestVault

record OptimizationResult =
  success :: bool
  res_userAddress :: string
  res_positionIndex :: nat
  fromVault :: string
  toVault :: string
  assetsReallocated :: nat
  res_newShares :: nat
  newAPY :: rat
  previousAPY :: rat
  transactionHash :: "string option"
  error :: "failure option"

record 'x services =
  getHistoricalAPY :: "string \<Rightarrow> string \<Rightarrow> 'x \<Rightarrow> HistoricalAPYResponse option \<times> 'x"
  dateNow :: "'x \<Rightarrow> nat"
  readUserPositions :: "string \<Rightarrow> 'x \<Rightarrow> (string + ChainPosition list) \<times> 'x"
  getQuote :: "QuoteParams \<Rightarrow> 'x \<Rightarrow> QuoteResponse \<times> 'x"
  ensureRouterWhitelisted :: "string \<Rightarrow> 'x \<Rightarrow> bool \<times> 'x"
  writeContract :: "nat \<Rightarrow> TxParams \<Rightarrow> 'x \<Rightarrow> (string + string) \<times> 'x"
  waitForTransactionReceipt :: "string \<Rightarrow> 'x \<Rightarrow> (string + bool) \<times> 'x"
  storeSave :: "YieldOptimizationDoc \<Rightarrow> 'x \<Rightarrow> (string + unit) \<times> 'x"
  getUsersWithYieldPositions :: "'x \<Rightarrow> string list \<times> 'x"

text \<open>
  The backend's own state: the outside world, the collection of optimization records,
  and a log of the \<open>optimizePosition\<close> calls handed to the wallet's \<open>writeContract\<close>.
\<close>

record 'x backend =
  outside :: 'x
  optimizations :: "YieldOptimizationDoc list"
  optimizeCalls :: "(nat \<times> TxParams) list"

subsection \<open>GlueXYieldsService\<close>

definition readAPY :: "APYData \<Rightarrow> rat" where
  "readAPY d =
    (let apy = orNumber (data_currentAPY d) (orNumber (data_averageAPY d) 0) in
     if apy = 0 \<and> length (data_historicalAPY d) > 0
     then let sum = foldl (\<lambda>acc point. fadd acc (point_apy point)) 0 (data_historicalAPY d)
          in fdiv sum (of_nat (length (data_historicalAPY d)))
     else apy)"

text \<open>The body of the loop of \<open>getYieldOpportunities\<close>: what one vault's answer adds.\<close>

definition opportunityOf :: "string \<Rightarrow> nat \<Rightarrow> HistoricalAPYResponse option \<Rightarrow> YieldOpportunity list" where
  "opportunityOf vaultAddress now r =
    (case r of
       None \<Rightarrow> []
     | Some response \<Rightarrow>
        (case apy_data response of
           None \<Rightarrow> []
         | Some d \<Rightarrow>
            if \<not> apy_success response then []
            else let apy = readAPY d in
              if apy > 0
              then [\<lparr>opp_vault = vaultAddress, opp_asset = orString (data_asset d) ''unknown'',
                     opp_apy = apy, opp_apr = orNumber (data_currentAPY d) apy, opp_timestamp = now\<rparr>]
              else []))"

fun collectOpportunities ::
  "'x services \<Rightarrow> string \<Rightarrow> string list \<Rightarrow> 'x \<Rightarrow> YieldOpportunity list \<times> 'x" where
  "collectOpportunities env chainID [] x = ([], x)"
| "collectOpportunities env chainID (vaultAddress # rest) x =
    (case getHistoricalAPY env chainID vaultAddress x of
       (response, x1) \<Rightarrow>
         (case collectOpportunities env chainID rest x1 of
            (others, x2) \<Rightarrow> (opportunityOf vaultAddress (dateNow env x1) response @ others, x2)))"

text \<open>
  \<open>opportunities.sort((a, b) => b.apy - a.apy)\<close>: the sort of an array is stable, and the
  comparator orders by falling \<open>apy\<close>. The difference of two different doubles never
  rounds to zero, so the sign of the comparator is that of the exact difference.
\<close>

definition getYieldOpportunities ::
  "'x services \<Rightarrow> string list \<Rightarrow> string \<Rightarrow> 'x \<Rightarrow> YieldOpportunity list \<times> 'x" where
  "getYieldOpportunities env vaultAddresses chainID x =
    (case collectOpportunities env chainID vaultAddresses x of
       (opportunities, x1) \<Rightarrow> (sort_key (\<lambda>opp. - opp_apy opp) opportunities, x1))"

definition assetOpportunities :: "string \<Rightarrow> YieldOpportunity list \<Rightarrow> YieldOpportunity list" where
  "assetOpportunities assetName opportunities =
    (if assetName \<noteq> [] then filter (\<lambda>opp. toLowerCase (opp_asset opp) = toLowerCase assetName) opportunities
     else opportunities)"

definition findBestYieldForAsset ::
  "'x services \<Rightarrow> string \<Rightarrow> string list \<Rightarrow> string \<Rightarrow> 'x \<Rightarrow> YieldOpportunity option \<times> 'x" where
  "findBestYieldForAsset env assetName vaultAddresses chainID x =
    (case getYieldOpportunities env vaultAddresses chainID x of
       (opportunities, x1) \<Rightarrow>
         (case assetOpportunities assetName opportunities of
            [] \<Rightarrow> (None, x1)
          | opp # _ \<Rightarrow> (Some opp, x1)))"

subsection \<open>YieldOptimizationService\<close>

definition GLUEX_VAULTS :: "string list" where
  "GLUEX_VAULTS =
    [''0xe25514992597786e07872e6c5517fe1906c0cadd'',
     ''0xcdc3975df9d1cf054f44ed238edfb708880292ea'',
     ''0x8f9291606862eef771a97e5b71e4b98fd1fa216a'',
     ''0x9f75eac57d1c6f7248bd2aede58c95689f3827f7'',
     ''0x63cf7ee583d9954febf649ad1c40c97a6493b1be'']"

fun enrichPositions ::
  "'x services \<Rightarrow> string \<Rightarrow> nat \<Rightarrow> ChainPosition list \<Rightarrow> 'x \<Rightarrow> UserPosition list \<times> 'x" where
  "enrichPositions env userAddress index [] x = ([], x)"
| "enrichPositions env userAddress index (position # rest) x =
    (case getYieldOpportunities env [cp_vault position] ''hyperevm'' x of
       (opportunities, x1) \<Rightarrow>
         (case enrichPositions env userAddress (Suc index) rest x1 of
            (others, x2) \<Rightarrow>
              (\<lparr>pos_userAddress = userAddress, pos_positionIndex = index,
                pos_vault = cp_vault position, pos_asset = cp_asset position,
                pos_shares = cp_shares position, pos_assets = cp_assets position,
                pos_apy = Some (case opportunities of [] \<Rightarrow> 0 | opp # _ \<Rightarrow> opp_apy opp),
                pos_active = cp_active position\<rparr> # others, x2)))"

definition getUserPositions :: "'x services \<Rightarrow> string \<Rightarrow> 'x \<Rightarrow> UserPosition list \<times> 'x" where
  "getUserPositions env userAddress x =
    (case readUserPositions env userAddress x of
       (Inl err, x1) \<Rightarrow> ([], x1)
     | (Inr positions, x1) \<Rightarrow> enrichPositions env userAddress 0 positions x1)"

definition findBestYieldOpportunity :: "'x services \<Rightarrow> string \<Rightarrow> 'x \<Rightarrow> YieldOpportunity option \<times> 'x" where
  "findBestYieldOpportunity env currentAsset x =
    findBestYieldForAsset env currentAsset GLUEX_VAULTS ''hyperevm'' x"

text \<open>The result built by the \<open>catch\<close> block of \<open>optimizePosition\<close>.\<close>

definition thrown :: "string \<Rightarrow> nat \<Rightarrow> string \<Rightarrow> OptimizationResult" where
  "thrown userAddress positionIndex msg =
    \<lparr>success = False, res_userAddress = userAddress, res_positionIndex = positionIndex,
     fromVault = [], toVault = [], assetsReallocated = 0, res_newShares = 0,
     newAPY = 0, previousAPY = 0, transactionHash = None, error = Some (Thrown msg)\<rparr>"

text \<open>The result of the two early returns, which differ in their \<open>error\<close> only.\<close>

definition declined ::
  "string \<Rightarrow> nat \<Rightarrow> UserPosition \<Rightarrow> rat \<Rightarrow> YieldOpportunity \<Rightarrow> failure \<Rightarrow> OptimizationResult" where
  "declined userAddress positionIndex currentPosition currentAPY bestOpportunity why =
    \<lparr>success = False, res_userAddress = userAddress, res_positionIndex = positionIndex,
     fromVault = pos_vault currentPosition, toVault = opp_vault bestOpportunity,
     assetsReallocated = 0, res_newShares = 0,
     newAPY = opp_apy bestOpportunity, previousAPY = currentAPY,
     transactionHash = None, error = Some why\<rparr>"

text \<open>
  \<open>optimizePosition(userAddress, positionIndex)\<close> of the service, in the three parts it
  is written in. First the decision: it ends the call with a result (\<open>Inl\<close>), or goes on
  with the position, its yield and the best opportunity (\<open>Inr\<close>).
\<close>

definition decide ::
  "'x services \<Rightarrow> rat \<Rightarrow> string \<Rightarrow> nat \<Rightarrow> 'x
    \<Rightarrow> (OptimizationResult + UserPosition \<times> rat \<times> YieldOpportunity) \<times> 'x" where
  "decide env optimizationThreshold userAddress positionIndex x =
    (case getUserPositions env userAddress x of
       (positions, x1) \<Rightarrow>
         if positionIndex \<ge> length positions \<or> \<not> pos_active (positions ! positionIndex)
         then (Inl (thrown userAddress positionIndex ''Invalid or inactive position''), x1)
         else let currentPosition = positions ! positionIndex;
                  currentAPY = orNumber (pos_apy currentPosition) 0 in
           (case findBestYieldOpportunity env (pos_asset currentPosition) x1 of
              (None, x2) \<Rightarrow>
                (Inl (thrown userAddress positionIndex ''No yield opportunities found''), x2)
            | (Some bestOpportunity, x2) \<Rightarrow>
                let apyDifference = fsub (opp_apy bestOpportunity) currentAPY in
                if apyDifference < optimizationThreshold
                then (Inl (declined userAddress positionIndex currentPosition currentAPY
                             bestOpportunity (BelowThreshold apyDifference optimizationThreshold)), x2)
                else if toLowerCase (opp_vault bestOpportunity) = toLowerCase (pos_vault currentPosition)
                then (Inl (declined userAddress positionIndex currentPosition currentAPY
                             bestOpportunity AlreadyInBestVault), x2)
                else (Inr (currentPosition, currentAPY, bestOpportunity), x2)))"

text \<open>
  Then the arguments of the on-chain call: a swap leg when the two assets differ, the
  best vault as target, and \<open>minSharesOut = "0"\<close>.
\<close>

definition buildParams ::
  "'x services \<Rightarrow> string \<Rightarrow> UserPosition \<Rightarrow> YieldOpportunity \<Rightarrow> 'x \<Rightarrow> (string + TxParams) \<times> 'x" where
  "buildParams env optimizerContract currentPosition bestOpportunity x =
    (if toLowerCase (pos_asset currentPosition) \<noteq> toLowerCase (opp_asset bestOpportunity) then
       (case getQuote env
               \<lparr>q_chainID = ''hyperevm'', q_inputToken = pos_asset currentPosition,
                q_outputToken = opp_asset bestOpportunity, q_userAddress = optimizerContract,
                q_outputReceiver = optimizerContract, q_inputAmount = pos_assets currentPosition\<rparr> x of
          (quote, x1) \<Rightarrow>
            (case (if quote_success quote then quote_result quote else None) of
               None \<Rightarrow> (Inl ''Failed to get swap quote'', x1)
             | Some (routerAddress, calldata) \<Rightarrow>
                (case ensureRouterWhitelisted env routerAddress x1 of
                   (routerWhitelisted, x2) \<Rightarrow>
                     if \<not> routerWhitelisted
                     then (Inl (''Router '' @ routerAddress @
                             '' is not whitelisted and could not be whitelisted automatically. Please whitelist manually.''), x2)
                     else (Inr \<lparr>tx_routers = [routerAddress], tx_calldatas = [calldata],
                                tx_inputTokens = [pos_asset currentPosition],
                                tx_outputTokens = [opp_asset bestOpportunity],
                                tx_inputAmounts = [pos_assets currentPosition],
                                tx_targetVault = opp_vault bestOpportunity,
                                tx_minSharesOut = 0\<rparr>, x2))))
     else (Inr \<lparr>tx_routers = [], tx_calldatas = [], tx_inputTokens = [], tx_outputTokens = [],
                tx_inputAmounts = [], tx_targetVault = opp_vault bestOpportunity,
                tx_minSharesOut = 0\<rparr>, x))"

text \<open>
  \<open>saveYieldOptimization\<close> of the database service: the document it builds lower-cases
  the addresses and the hash; a failed write is thrown on to the caller.
\<close>

definition lowered :: "YieldOptimizationDoc \<Rightarrow> YieldOptimizationDoc" where
  "lowered optimization = optimization
     \<lparr>doc_userAddress := toLowerCase (doc_userAddress optimization),
      doc_fromVault := toLowerCase (doc_fromVault optimization),
      doc_toVault := toLowerCase (doc_toVault optimization),
      doc_transactionHash := map_option toLowerCase (doc_transactionHash optimization)\<rparr>"

definition saveYieldOptimization ::
  "'x services \<Rightarrow> YieldOptimizationDoc \<Rightarrow> 'x backend \<Rightarrow> (string + unit) \<times> 'x backend" where
  "saveYieldOptimization env optimization st =
    (case storeSave env (lowered optimization) (outside st) of
       (Inl msg, x1) \<Rightarrow> (Inl msg, st\<lparr>outside := x1\<rparr>)
     | (Inr u, x1) \<Rightarrow>
         (Inr (), st\<lparr>outside := x1, optimizations := optimizations st @ [lowered optimization]\<rparr>))"

text \<open>Last the wait for the receipt, the record and the result.\<close>

definition optimizationDoc ::
  "string \<Rightarrow> nat \<Rightarrow> UserPosition \<Rightarrow> rat \<Rightarrow> YieldOpportunity \<Rightarrow> string \<Rightarrow> nat \<Rightarrow> YieldOptimizationDoc" where
  "optimizationDoc userAddress positionIndex currentPosition currentAPY bestOpportunity txhash now =
    \<lparr>doc_userAddress = userAddress, doc_positionIndex = positionIndex,
     doc_fromVault = pos_vault currentPosition, doc_toVault = opp_vault bestOpportunity,
     doc_assetsReallocated = pos_assets currentPosition,
     doc_previousAPY = currentAPY, doc_newAPY = opp_apy bestOpportunity,
     doc_transactionHash = Some txhash, doc_timestamp = now\<rparr>"

definition optimized ::
  "string \<Rightarrow> nat \<Rightarrow> UserPosition \<Rightarrow> rat \<Rightarrow> YieldOpportunity \<Rightarrow> string \<Rightarrow> OptimizationResult" where
  "optimized userAddress positionIndex currentPosition currentAPY bestOpportunity txhash =
    \<lparr>success = True, res_userAddress = userAddress, res_positionIndex = positionIndex,
     fromVault = pos_vault currentPosition, toVault = opp_vault bestOpportunity,
     assetsReallocated = pos_assets currentPosition, res_newShares = 0,
     newAPY = opp_apy bestOpportunity, previousAPY = currentAPY,
     transactionHash = Some txhash, error = None\<rparr>"

definition confirmAndRecord ::
  "'x services \<Rightarrow> string \<Rightarrow> nat \<Rightarrow> UserPosition \<Rightarrow> rat \<Rightarrow> YieldOpportunity \<Rightarrow> string
    \<Rightarrow> 'x backend \<Rightarrow> OptimizationResult \<times> 'x backend" where
  "confirmAndRecord env userAddress positionIndex currentPosition currentAPY bestOpportunity txhash st =
    (case waitForTransactionReceipt env txhash (outside st) of
       (Inl msg, x1) \<Rightarrow> (thrown userAddress positionIndex msg, st\<lparr>outside := x1\<rparr>)
     | (Inr receiptSuccess, x1) \<Rightarrow>
         if receiptSuccess then
           (case saveYieldOptimization env
                   (optimizationDoc userAddress positionIndex currentPosition currentAPY
                      bestOpportunity txhash (dateNow env x1))
                   (st\<lparr>outside := x1\<rparr>) of
              (Inl msg, st1) \<Rightarrow> (thrown userAddress positionIndex msg, st1)
            | (Inr u, st1) \<Rightarrow>
                (optimized userAddress positionIndex currentPosition currentAPY bestOpportunity txhash,
                 st1))
         else (thrown userAddress positionIndex ''Transaction failed'', st\<lparr>outside := x1\<rparr>))"

definition optimizePosition_service ::
  "'x services \<Rightarrow> rat \<Rightarrow> string \<Rightarrow> string \<Rightarrow> nat \<Rightarrow> 'x backend
    \<Rightarrow> OptimizationResult \<times> 'x backend" where
  "optimizePosition_service env optimizationThreshold optimizerContract userAddress positionIndex st =
    (case decide env optimizationThreshold userAddress positionIndex (outside st) of
       (Inl result, x2) \<Rightarrow> (result, st\<lparr>outside := x2\<rparr>)
     | (Inr (currentPosition, currentAPY, bestOpportunity), x2) \<Rightarrow>
         (case buildParams env optimizerContract currentPosition bestOpportunity x2 of
            (Inl msg, x3) \<Rightarrow> (thrown userAddress positionIndex msg, st\<lparr>outside := x3\<rparr>)
          | (Inr params, x3) \<Rightarrow>
              (case writeContract env positionIndex params x3 of
                 (Inl msg, x4) \<Rightarrow>
                   (thrown userAddress positionIndex msg,
                    st\<lparr>outside := x4, optimizeCalls := optimizeCalls st @ [(positionIndex, params)]\<rparr>)
               | (Inr txhash, x4) \<Rightarrow>
                   confirmAndRecord env userAddress positionIndex currentPosition currentAPY
                     bestOpportunity txhash
                     (st\<lparr>outside := x4,
                        optimizeCalls := optimizeCalls st @ [(positionIndex, params)]\<rparr>))))"

text \<open>
  \<open>optimizeAllPositions\<close>: the two nested iterations. The source logs the two counters and
  returns nothing; here the results are returned in the order they are produced, and the
  counters are read off them.
\<close>

fun optimizeListed ::
  "'x services \<Rightarrow> rat \<Rightarrow> string \<Rightarrow> string \<Rightarrow> UserPosition list \<Rightarrow> 'x backend
    \<Rightarrow> OptimizationResult list \<times> 'x backend" where
  "optimizeListed env threshold optimizerContract userAddress [] st = ([], st)"
| "optimizeListed env threshold optimizerContract userAddress (position # rest) st =
    (if \<not> pos_active position then optimizeListed env threshold optimizerContract userAddress rest st
     else case optimizePosition_service env threshold optimizerContract userAddress
                 (pos_positionIndex position) st of
       (result, st1) \<Rightarrow>
         (case optimizeListed env threshold optimizerContract userAddress rest st1 of
            (results, st2) \<Rightarrow> (result # results, st2)))"

definition optimizeUser ::
  "'x services \<Rightarrow> rat \<Rightarrow> string \<Rightarrow> string \<Rightarrow> 'x backend \<Rightarrow> OptimizationResult list \<times> 'x backend" where
  "optimizeUser env threshold optimizerContract userAddress st =
    (case getUserPositions env userAddress (outside st) of
       (positions, x1) \<Rightarrow>
         optimizeListed env threshold optimizerContract userAddress positions (st\<lparr>outside := x1\<rparr>))"

fun optimizeUsers ::
  "'x services \<Rightarrow> rat \<Rightarrow> string \<Rightarrow> string list \<Rightarrow> 'x backend
    \<Rightarrow> OptimizationResult list \<times> 'x backend" where
  "optimizeUsers env threshold optimizerContract [] st = ([], st)"
| "optimizeUsers env threshold optimizerContract (userAddress # users) st =
    (case optimizeUser env threshold optimizerContract userAddress st of
       (results, st1) \<Rightarrow>
         (case optimizeUsers env threshold optimizerContract users st1 of
            (others, st2) \<Rightarrow> (results @ others, st2)))"

definition optimizeAllPositions ::
  "'x services \<Rightarrow> rat \<Rightarrow> string \<Rightarrow> 'x backend \<Rightarrow> OptimizationResult list \<times> 'x backend" where
  "optimizeAllPositions env threshold optimizerContract st =
    (case getUsersWithYieldPositions env (outside st) of
       (users, x1) \<Rightarrow> optimizeUsers env threshold optimizerContract users (st\<lparr>outside := x1\<rparr>))"

definition optimizedCount :: "OptimizationResult list \<Rightarrow> nat" where
  "optimizedCount results = length (filter success results)"

definition skippedCount :: "OptimizationResult list \<Rightarrow> nat" where
  "skippedCount results = length (filter (\<lambda>r. \<not> success r) results)"

text \<open>
  A reading that adds no opportunity: the call threw, or the answer reports no success,
  carries no data, or yields no positive figure.
\<close>

definition unusable :: "HistoricalAPYResponse option \<Rightarrow> bool" where
  "unusable r =
    (case r of
       None \<Rightarrow> True
     | Some response \<Rightarrow>
        (case apy_data response of
           None \<Rightarrow> True
         | Some d \<Rightarrow> \<not> apy_success response \<or> \<not> readAPY d > 0))"

section \<open>Concrete instances\<close>

subsection \<open>A small concrete chain\<close>

text \<open>
  Two tokens, \<open>tokenA\<close> and \<open>tokenB\<close>, and three vaults: \<open>vaultA\<close> and \<open>vaultA2\<close> hold
  \<open>tokenA\<close>, \<open>vaultB\<close> holds \<open>tokenB\<close>. Every vault gives one share for two units of its
  asset, rounding down, and pays two units back per share. The state of this chain is
  the ledger's balance of each token. A router's swap fails unless its calldata is
  \<open>[1]\<close>, and a successful swap moves nothing in this small chain.
\<close>

definition tokenA :: address where "tokenA = 0xA"

definition tokenB :: address where "tokenB = 0xB"

definition vaultA :: address where "vaultA = 0x1A"

definition vaultA2 :: address where "vaultA2 = 0x2A"

definition vaultB :: address where "vaultB = 0x1B"

definition alice :: address where "alice = 0xA11CE"

definition toy_asset :: "address \<Rightarrow> address option" where
  "toy_asset v = (if v = vaultA \<or> v = vaultA2 then Some tokenA
                  else if v = vaultB then Some tokenB else None)"

definition toy_chain :: "(address \<Rightarrow> uint256) chain" where
  "toy_chain =
    \<lparr>erc4626_asset = (\<lambda>v w. toy_asset v),
     erc4626_deposit = (\<lambda>v amount receiver w.
        case toy_asset v of None \<Rightarrow> None
        | Some a \<Rightarrow> if w a < amount then None else Some (amount div 2, w(a := w a - amount))),
     erc4626_redeem = (\<lambda>v sh receiver owner w.
        case toy_asset v of None \<Rightarrow> None
        | Some a \<Rightarrow> Some (2 * sh, w(a := w a + 2 * sh))),
     erc4626_convertToAssets = (\<lambda>v sh w. Some (2 * sh)),
     erc20_balanceOf = (\<lambda>token account w. Some (w token)),
     erc20_safeTransferFrom = (\<lambda>token from to amount w. Some (w(token := w token + amount))),
     erc20_safeIncreaseAllowance = (\<lambda>token spender amount w. Some w),
     low_level_call = (\<lambda>router calldata w. (calldata = [1], w))\<rparr>"

definition toy_ledger :: "Position list \<Rightarrow> (address \<Rightarrow> uint256) \<Rightarrow> (address \<Rightarrow> uint256) ledger" where
  "toy_ledger ps w =
    \<lparr>userPositions = (\<lambda>u. if u = alice then ps else []),
     whitelistedVaults = (\<lambda>v. v = vaultA \<or> v = vaultA2 \<or> v = vaultB),
     whitelistedRouters = (\<lambda>r. r = 0x77),
     paused = False,
     this = 0x1ED6E7,
     world = w\<rparr>"

definition posA :: "uint256 \<Rightarrow> Position" where
  "posA n = \<lparr>vault = vaultA, asset = tokenA, shares = n, assets = 2 * n, active = True\<rparr>"

text \<open>
  Three parameter sets for \<open>optimizePosition\<close>: one swap leg whose router call fails,
  and no legs at all into \<open>vaultB\<close>; \<open>strayB\<close> is an outside world in which the ledger
  already holds 8 units of \<open>tokenB\<close>.
\<close>

definition failingLeg :: OptimizeParams where
  "failingLeg = \<lparr>routers = [0x77], calldatas = [ [0] ], inputTokens = [tokenA],
     outputTokens = [tokenB], inputAmounts = [10], targetVault = vaultB, minSharesOut = 0\<rparr>"

definition noLegs :: OptimizeParams where
  "noLegs = \<lparr>routers = [], calldatas = [], inputTokens = [], outputTokens = [],
     inputAmounts = [], targetVault = vaultB, minSharesOut = 0\<rparr>"

definition strayB :: "address \<Rightarrow> uint256" where
  "strayB = (\<lambda>_. 0)(tokenB := 8)"

subsection \<open>Small concrete services\<close>

text \<open>
  The outside state of these services is the number of yield queries made so far, so a
  table of readings may depend on when it is asked. Every vault reports the asset
  \<open>0xusd\<close>; a missing reading is answered as the yield service does on an HTTP error.
  The chain client lists the positions given, the wallet returns a hash, the receipt
  and the store succeed or fail as the two flags say.
\<close>

definition firstVault :: string where
  "firstVault = ''0xe25514992597786e07872e6c5517fe1906c0cadd''"

definition secondVault :: string where
  "secondVault = ''0xcdc3975df9d1cf054f44ed238edfb708880292ea''"

definition thirdVault :: string where
  "thirdVault = ''0x8f9291606862eef771a97e5b71e4b98fd1fa216a''"

definition lastVaults :: "string list" where
  "lastVaults = [''0x9f75eac57d1c6f7248bd2aede58c95689f3827f7'',
                 ''0x63cf7ee583d9954febf649ad1c40c97a6493b1be'']"

definition answer :: "string \<Rightarrow> rat option \<Rightarrow> HistoricalAPYResponse option" where
  "answer vaultAddress r =
    (case r of
       None \<Rightarrow> Some \<lparr>apy_success = False, apy_data = None, apy_error = Some ''HTTP error''\<rparr>
     | Some a \<Rightarrow> Some \<lparr>apy_success = True,
          apy_data = Some \<lparr>data_vault = Some vaultAddress, data_asset = Some ''0xusd'',
             data_historicalAPY = [], data_averageAPY = None, data_currentAPY = Some a\<rparr>,
          apy_error = None\<rparr>)"

definition toy_services ::
  "(nat \<Rightarrow> string \<Rightarrow> rat option) \<Rightarrow> (string \<Rightarrow> ChainPosition list) \<Rightarrow> string list \<Rightarrow> bool \<Rightarrow> bool
    \<Rightarrow> nat services" where
  "toy_services readings positionsOf users receiptOk storeOk =
    \<lparr>getHistoricalAPY = (\<lambda>chainID vaultAddress x. (answer vaultAddress (readings x vaultAddress), Suc x)),
     dateNow = (\<lambda>x. x),
     readUserPositions = (\<lambda>userAddress x. (Inr (positionsOf userAddress), x)),
     getQuote = (\<lambda>q x. (\<lparr>quote_success = True, quote_result = Some (''0xrouter'', ''0xcalldata'')\<rparr>, x)),
     ensureRouterWhitelisted = (\<lambda>routerAddress x. (True, x)),
     writeContract = (\<lambda>positionIndex params x. (Inr ''0xhash'', x)),
     waitForTransactionReceipt = (\<lambda>txhash x. (Inr receiptOk, x)),
     storeSave = (\<lambda>doc x. (if storeOk then Inr () else Inl ''store unavailable'', x)),
     getUsersWithYieldPositions = (\<lambda>x. (users, x))\<rparr>"

definition inFirstVault :: "string \<Rightarrow> ChainPosition list" where
  "inFirstVault userAddress =
    [\<lparr>cp_vault = firstVault, cp_asset = ''0xusd'', cp_shares = 100, cp_assets = 100, cp_active = True\<rparr>]"

text \<open>
  The doubles that the decimal literals \<open>4.2\<close>, \<open>0.1\<close>, \<open>0.2\<close>, \<open>0.6\<close> and \<open>0.7\<close>
  denote, and a table of readings for the first two vaults.
\<close>

definition double_4_2 :: rat where
  "double_4_2 = 4728779608739021 / 1125899906842624"

definition double_0_1 :: rat where
  "double_0_1 = 3602879701896397 / 36028797018963968"

definition double_0_2 :: rat where
  "double_0_2 = 3602879701896397 / 18014398509481984"

definition double_0_6 :: rat where
  "double_0_6 = 5404319552844595 / 9007199254740992"

definition double_0_7 :: rat where
  "double_0_7 = 3152519739159347 / 4503599627370496"

definition twoVaults :: "rat \<Rightarrow> rat \<Rightarrow> nat \<Rightarrow> string \<Rightarrow> rat option" where
  "twoVaults a b x vaultAddress =
    (if vaultAddress = firstVault then Some a
     else if vaultAddress = secondVault then Some b else None)"

definition steady :: "nat \<Rightarrow> string \<Rightarrow> rat option" where
  "steady x vaultAddress =
    (if vaultAddress = firstVault then Some 3
     else if vaultAddress = secondVault then Some double_4_2 else None)"

text \<open>
  \<open>steady\<close>: the first vault yields 3, the second 4.2, the others give no reading.
  \<open>spurious\<close>: only the first vault answers, 3 at the first query and 4.2 afterwards.
  \<open>outage\<close>: as \<open>steady\<close>, with no reading at all from the 8th to the 14th query.
  \<open>level\<close>: the first two vaults both yield 3.
  \<open>nearMiss\<close>: the first vault yields 0.2, the second 0.7.
  \<open>roundedUp\<close>: the first vault yields 0.1, the second 0.6.
\<close>

definition users3 :: "string list" where
  "users3 = [''0xu1'', ''0xu2'', ''0xu3'']"

definition fresh :: "nat backend" where
  "fresh = \<lparr>outside = 0, optimizations = [], optimizeCalls = []\<rparr>"

definition calm :: "nat services" where
  "calm = toy_services steady inFirstVault users3 True True"

definition storeDown :: "nat services" where
  "storeDown = toy_services steady inFirstVault users3 True False"

definition spurious :: "nat \<Rightarrow> string \<Rightarrow> rat option" where
  "spurious x vaultAddress =
    (if vaultAddress = firstVault then (if x = 0 then Some 3 else Some double_4_2) else None)"

definition jumpy :: "nat services" where
  "jumpy = toy_services spurious inFirstVault users3 True True"

definition outage :: "nat \<Rightarrow> string \<Rightarrow> rat option" where
  "outage x vaultAddress = (if 7 \<le> x \<and> x < 14 then None else steady x vaultAddress)"

definition patchy :: "nat services" where
  "patchy = toy_services outage inFirstVault users3 True True"

definition etherInFirstVault :: "string \<Rightarrow> ChainPosition list" where
  "etherInFirstVault userAddress =
    [\<lparr>cp_vault = firstVault, cp_asset = ''0xeth'', cp_shares = 100, cp_assets = 100, cp_active = True\<rparr>]"

definition otherAsset :: "nat services" where
  "otherAsset = toy_services steady etherInFirstVault users3 True True"

definition inFirst :: "rat \<Rightarrow> UserPosition" where
  "inFirst a = \<lparr>pos_userAddress = ''0xu1'', pos_positionIndex = 0, pos_vault = firstVault,
      pos_asset = ''0xusd'', pos_shares = 100, pos_assets = 100, pos_apy = Some a, pos_active = True\<rparr>"

definition offer :: "string \<Rightarrow> rat \<Rightarrow> nat \<Rightarrow> YieldOpportunity" where
  "offer vaultAddress a now =
    \<lparr>opp_vault = vaultAddress, opp_asset = ''0xusd'', opp_apy = a, opp_apr = a, opp_timestamp = now\<rparr>"

definition nearMiss :: "nat services" where
  "nearMiss = toy_services (twoVaults double_0_2 double_0_7) inFirstVault users3 True True"

definition roundedUp :: "nat services" where
  "roundedUp = toy_services (twoVaults double_0_1 double_0_6) inFirstVault users3 True True"

definition level :: "nat \<Rightarrow> string \<Rightarrow> rat option" where
  "level x vaultAddress =
    (if vaultAddress = firstVault \<or> vaultAddress = secondVault then Some 3 else None)"

definition tied :: "nat services" where
  "tied = toy_services level inFirstVault users3 True True"

section \<open>Properties of the ledger\<close>

lemma transact_failure_keeps_state:
  "transact f s = (Inl e, s') \<Longrightarrow> s' = s"
  by (auto simp: transact_def split: sum.splits prod.splits)

lemma transact_Inl: "f s = Inl e \<Longrightarrow> transact f s = (Inl e, s)"
  by (simp add: transact_def)

lemma transact_Inr: "f s = Inr (r, s') \<Longrightarrow> transact f s = (Inr r, s')"
  by (simp add: transact_def)

lemma transact_Inr_iff:
  "transact f s = (Inr r, s') \<longleftrightarrow> f s = Inr (r, s')"
  by (auto simp: transact_def split: sum.splits)

subsection \<open>Withdrawals that must fail\<close>

lemma withdraw_invalid_fails:
  assumes "\<not> unat idx < length (userPositions s sender)
           \<or> \<not> active (userPositions s sender ! unat idx)
           \<or> \<not> (0 < sh \<and> sh \<le> shares (userPositions s sender ! unat idx))"
  shows "\<exists>e. withdraw ext sender idx sh minAssetsOut s = Inl e"
  using assms by (auto simp: withdraw_def Let_def)

text \<open>
  C9. A withdraw with an index out of range, on an inactive position, or with a share
  amount that is zero or exceeds the position's shares fails, and every failed withdraw
  leaves the whole ledger state, hence every field of the position, as it was.
\<close>

theorem withdraw_invalid_fails_unchanged:
  "((\<not> unat idx < length (userPositions s sender)
      \<or> \<not> active (userPositions s sender ! unat idx)
      \<or> \<not> (0 < sh \<and> sh \<le> shares (userPositions s sender ! unat idx)))
     \<longrightarrow> (\<exists>e. transact (withdraw ext sender idx sh minAssetsOut) s = (Inl e, s)))
   \<and> (\<forall>e s'. transact (withdraw ext sender idx sh minAssetsOut) s = (Inl e, s') \<longrightarrow> s' = s)"
proof (intro conjI impI allI)
  assume bad: "\<not> unat idx < length (userPositions s sender)
      \<or> \<not> active (userPositions s sender ! unat idx)
      \<or> \<not> (0 < sh \<and> sh \<le> shares (userPositions s sender ! unat idx))"
  from withdraw_invalid_fails [OF bad] obtain e
    where "withdraw ext sender idx sh minAssetsOut s = Inl e" by blast
  then have "transact (withdraw ext sender idx sh minAssetsOut) s = (Inl e, s)"
    by (simp add: transact_def)
  then show "\<exists>e. transact (withdraw ext sender idx sh minAssetsOut) s = (Inl e, s)" ..
next
  fix e s'
  assume "transact (withdraw ext sender idx sh minAssetsOut) s = (Inl e, s')"
  then show "s' = s" by (rule transact_failure_keeps_state)
qed

lemma toy_withdraw_too_many:
  "withdraw toy_chain alice 0 6 0 (toy_ledger [posA 5] (\<lambda>_. 0)) = Inl (Require ''Invalid shares'')"
  by (simp add: withdraw_def toy_ledger_def posA_def)

lemma toy_shares_5:
  "shares (userPositions (toy_ledger [posA 5] (\<lambda>_. 0)) alice ! 0) = 5"
  by (simp add: toy_ledger_def posA_def)

theorem withdraw_invalid_fails_unchanged_witness:
  "\<not> (0 < (6::uint256) \<and> 6 \<le> shares (userPositions (toy_ledger [posA 5] (\<lambda>_. 0)) alice ! unat (0::uint256)))
   \<and> transact (withdraw toy_chain alice 0 6 0) (toy_ledger [posA 5] (\<lambda>_. 0))
       = (Inl (Require ''Invalid shares''), toy_ledger [posA 5] (\<lambda>_. 0))
   \<and> (\<exists>e. transact (withdraw toy_chain alice 0 6 0) (toy_ledger [posA 5] (\<lambda>_. 0))
       = (Inl e, toy_ledger [posA 5] (\<lambda>_. 0)))"
  using withdraw_invalid_fails_unchanged [of 0 "toy_ledger [posA 5] (\<lambda>_. 0)" alice 6 toy_chain 0]
  by (simp add: toy_withdraw_too_many toy_shares_5 transact_def)

subsection \<open>Reallocation is all or nothing\<close>

lemma optimizePosition_cases:
  "(\<exists>e. optimizePosition ext sender idx p s = Inl e)
   \<or> (\<exists>newShares targetAsset bal w'.
        unat idx < length (userPositions s sender)
        \<and> optimizePosition ext sender idx p s =
            Inr (newShares,
              s\<lparr>userPositions := (userPositions s)(sender := (userPositions s sender)
                   [unat idx := (userPositions s sender ! unat idx)
                      \<lparr>vault := targetVault p, asset := targetAsset,
                       shares := newShares, assets := bal\<rparr>]),
                world := w'\<rparr>))"
  by (auto simp: optimizePosition_def Let_def split: option.splits sum.splits prod.splits)

lemma optimizePosition_transact_cases:
  "(\<exists>e. transact (optimizePosition ext sender idx p) s = (Inl e, s))
    \<or> (\<exists>newShares targetAsset bal w'.
         unat idx < length (userPositions s sender)
         \<and> transact (optimizePosition ext sender idx p) s =
             (Inr newShares,
              s\<lparr>userPositions := (userPositions s)(sender := (userPositions s sender)
                   [unat idx := (userPositions s sender ! unat idx)
                      \<lparr>vault := targetVault p, asset := targetAsset,
                       shares := newShares, assets := bal\<rparr>]),
                world := w'\<rparr>))"
  using optimizePosition_cases [of ext sender idx p s]
proof (elim disjE exE conjE)
  fix e
  assume "optimizePosition ext sender idx p s = Inl e"
  then have "transact (optimizePosition ext sender idx p) s = (Inl e, s)"
    by (rule transact_Inl)
  then show ?thesis by blast
next
  fix newShares targetAsset bal w'
  assume a: "unat idx < length (userPositions s sender)"
    and b: "optimizePosition ext sender idx p s =
            Inr (newShares,
              s\<lparr>userPositions := (userPositions s)(sender := (userPositions s sender)
                   [unat idx := (userPositions s sender ! unat idx)
                      \<lparr>vault := targetVault p, asset := targetAsset,
                       shares := newShares, assets := bal\<rparr>]),
                world := w'\<rparr>)"
  from b have "transact (optimizePosition ext sender idx p) s =
             (Inr newShares,
              s\<lparr>userPositions := (userPositions s)(sender := (userPositions s sender)
                   [unat idx := (userPositions s sender ! unat idx)
                      \<lparr>vault := targetVault p, asset := targetAsset,
                       shares := newShares, assets := bal\<rparr>]),
                world := w'\<rparr>)"
    by (rule transact_Inr)
  with a show ?thesis by blast
qed

lemma executeSwaps_append:
  "executeSwaps ext wl p (pre @ post) w =
    (case executeSwaps ext wl p pre w of Inl e \<Rightarrow> Inl e | Inr w' \<Rightarrow> executeSwaps ext wl p post w')"
  by (induction pre arbitrary: w) (auto split: option.splits prod.splits)

lemma executeSwaps_leg_fails:
  assumes "executeSwaps ext wl p pre w = Inr w'"
    and "executeSwaps ext wl p [i] w' = Inl e"
  shows "executeSwaps ext wl p (pre @ i # post) w = Inl e"
proof -
  have "executeSwaps ext wl p (i # post) w' = Inl e"
    using assms(2) by (auto split: option.splits prod.splits if_splits)
  then show ?thesis using assms(1) by (simp add: executeSwaps_append)
qed

lemma swapPhase_executes:
  assumes "length (routers p) > 0"
    and "length (routers p) = length (calldatas p) \<and>
         length (routers p) = length (inputTokens p) \<and>
         length (routers p) = length (outputTokens p) \<and>
         length (routers p) = length (inputAmounts p)"
  shows "swapPhase ext wl p w = executeSwaps ext wl p [0 ..< length (routers p)] w"
  using assms by (auto simp: swapPhase_def)

lemma optimizePosition_swap_failure:
  assumes "\<not> paused s" "unat idx < length (userPositions s sender)"
    "whitelistedVaults s (targetVault p)" "active (userPositions s sender ! unat idx)"
    "erc4626_redeem ext (vault (userPositions s sender ! unat idx))
        (shares (userPositions s sender ! unat idx)) (this s) (this s) (world s) = Some (r, w1)"
    "swapPhase ext (whitelistedRouters s) p w1 = Inl e"
  shows "optimizePosition ext sender idx p s = Inl e"
  using assms by (simp add: optimizePosition_def Let_def)

lemma reachesSwaps_failure:
  assumes "reachesSwaps ext sender idx p s w1"
    and "swapPhase ext (whitelistedRouters s) p w1 = Inl e"
  shows "transact (optimizePosition ext sender idx p) s = (Inl e, s)"
proof -
  from assms(1) obtain r where
    "erc4626_redeem ext (vault (userPositions s sender ! unat idx))
        (shares (userPositions s sender ! unat idx)) (this s) (this s) (world s) = Some (r, w1)"
    by (auto simp: reachesSwaps_def)
  with assms have "optimizePosition ext sender idx p s = Inl e"
    by (intro optimizePosition_swap_failure) (auto simp: reachesSwaps_def)
  then show ?thesis by (rule transact_Inl)
qed

lemma optimizePosition_succeeds:
  assumes "reachesSwaps ext sender idx p s w1"
    and "swapPhase ext (whitelistedRouters s) p w1 = Inr w2"
    and "erc4626_asset ext (targetVault p) w2 = Some targetAsset" and "targetAsset \<noteq> 0"
    and "erc20_balanceOf ext targetAsset (this s) w2 = Some bal" and "bal > 0"
    and "erc20_safeIncreaseAllowance ext targetAsset (targetVault p) bal w2 = Some w3"
    and "erc4626_deposit ext (targetVault p) bal (this s) w3 = Some (newShares, w4)"
    and "newShares \<ge> minSharesOut p"
  shows "optimizePosition ext sender idx p s =
           Inr (newShares,
             s\<lparr>userPositions := (userPositions s)(sender := (userPositions s sender)
                  [unat idx := (userPositions s sender ! unat idx)
                     \<lparr>vault := targetVault p, asset := targetAsset,
                      shares := newShares, assets := bal\<rparr>]),
               world := w4\<rparr>)"
proof -
  from assms(1) obtain r where
    "erc4626_redeem ext (vault (userPositions s sender ! unat idx))
        (shares (userPositions s sender ! unat idx)) (this s) (this s) (world s) = Some (r, w1)"
    by (auto simp: reachesSwaps_def)
  with assms show ?thesis
    by (simp add: optimizePosition_def Let_def reachesSwaps_def)
qed

lemma optimizePosition_success_path:
  assumes "optimizePosition ext sender idx p s = Inr (n, s')"
  shows "\<exists>w1 w2 targetAsset bal w3 w4.
           reachesSwaps ext sender idx p s w1
           \<and> swapPhase ext (whitelistedRouters s) p w1 = Inr w2
           \<and> erc4626_asset ext (targetVault p) w2 = Some targetAsset
           \<and> erc20_balanceOf ext targetAsset (this s) w2 = Some bal
           \<and> erc20_safeIncreaseAllowance ext targetAsset (targetVault p) bal w2 = Some w3
           \<and> erc4626_deposit ext (targetVault p) bal (this s) w3 = Some (n, w4)
           \<and> s' = s\<lparr>userPositions := (userPositions s)(sender := (userPositions s sender)
                  [unat idx := (userPositions s sender ! unat idx)
                     \<lparr>vault := targetVault p, asset := targetAsset,
                      shares := n, assets := bal\<rparr>]),
               world := w4\<rparr>"
  using assms
  by (auto simp: optimizePosition_def reachesSwaps_def Let_def
        split: if_splits option.splits sum.splits prod.splits)

lemma optimizePosition_outcomes:
  "(\<exists>e. transact (optimizePosition ext sender idx p) s = (Inl e, s))
    \<or> (\<exists>w1 w2 targetAsset bal w3 newShares w4.
         reachesSwaps ext sender idx p s w1
         \<and> swapPhase ext (whitelistedRouters s) p w1 = Inr w2
         \<and> erc4626_asset ext (targetVault p) w2 = Some targetAsset
         \<and> erc20_balanceOf ext targetAsset (this s) w2 = Some bal
         \<and> erc20_safeIncreaseAllowance ext targetAsset (targetVault p) bal w2 = Some w3
         \<and> erc4626_deposit ext (targetVault p) bal (this s) w3 = Some (newShares, w4)
         \<and> transact (optimizePosition ext sender idx p) s =
             (Inr newShares,
              s\<lparr>userPositions := (userPositions s)(sender := (userPositions s sender)
                   [unat idx := (userPositions s sender ! unat idx)
                      \<lparr>vault := targetVault p, asset := targetAsset,
                       shares := newShares, assets := bal\<rparr>]),
                world := w4\<rparr>))"
proof (cases "optimizePosition ext sender idx p s")
  case (Inl e)
  then have "transact (optimizePosition ext sender idx p) s = (Inl e, s)"
    by (rule transact_Inl)
  then show ?thesis by blast
next
  case (Inr r)
  obtain n s' where r: "r = (n, s')" by (cases r)
  from optimizePosition_success_path [OF Inr [unfolded r]]
  obtain w1 w2 targetAsset bal w3 w4 where path:
    "reachesSwaps ext sender idx p s w1"
    "swapPhase ext (whitelistedRouters s) p w1 = Inr w2"
    "erc4626_asset ext (targetVault p) w2 = Some targetAsset"
    "erc20_balanceOf ext targetAsset (this s) w2 = Some bal"
    "erc20_safeIncreaseAllowance ext targetAsset (targetVault p) bal w2 = Some w3"
    "erc4626_deposit ext (targetVault p) bal (this s) w3 = Some (n, w4)"
    and s': "s' = s\<lparr>userPositions := (userPositions s)(sender := (userPositions s sender)
                  [unat idx := (userPositions s sender ! unat idx)
                     \<lparr>vault := targetVault p, asset := targetAsset,
                      shares := n, assets := bal\<rparr>]),
               world := w4\<rparr>"
    by blast
  have "transact (optimizePosition ext sender idx p) s = (Inr n, s')"
    using Inr r by (simp add: transact_def)
  with path s' show ?thesis by blast
qed

text \<open>
  C1. A call of \<open>optimizePosition\<close> either fails and leaves the ledger exactly as it
  was, or succeeds and overwrites the four fields of the one position together, each
  with its new value: \<open>vault\<close> with the target vault, \<open>asset\<close> with the asset the target
  vault reports, \<open>assets\<close> with the ledger's balance of that asset after the swaps, and
  \<open>shares\<close> with the shares the target vault returned for that balance; everything else
  in the ledger's storage stays as it was. It does succeed, with exactly that state,
  whenever the guards pass, the swap phase and the external calls succeed, the balance
  is positive and the shares reach \<open>minSharesOut\<close>. A failure of the swap phase, in
  particular a leg whose router call reports no success, is a failure of the whole call.
\<close>

theorem optimizePosition_all_or_nothing:
  "((\<exists>e. transact (optimizePosition ext sender idx p) s = (Inl e, s))
    \<or> (\<exists>w1 w2 targetAsset bal w3 newShares w4.
         reachesSwaps ext sender idx p s w1
         \<and> swapPhase ext (whitelistedRouters s) p w1 = Inr w2
         \<and> erc4626_asset ext (targetVault p) w2 = Some targetAsset
         \<and> erc20_balanceOf ext targetAsset (this s) w2 = Some bal
         \<and> erc20_safeIncreaseAllowance ext targetAsset (targetVault p) bal w2 = Some w3
         \<and> erc4626_deposit ext (targetVault p) bal (this s) w3 = Some (newShares, w4)
         \<and> transact (optimizePosition ext sender idx p) s =
             (Inr newShares,
              s\<lparr>userPositions := (userPositions s)(sender := (userPositions s sender)
                   [unat idx := (userPositions s sender ! unat idx)
                      \<lparr>vault := targetVault p, asset := targetAsset,
                       shares := newShares, assets := bal\<rparr>]),
                world := w4\<rparr>)))
   \<and> (\<forall>w1 w2 targetAsset bal w3 newShares w4.
          reachesSwaps ext sender idx p s w1
          \<and> swapPhase ext (whitelistedRouters s) p w1 = Inr w2
          \<and> erc4626_asset ext (targetVault p) w2 = Some targetAsset \<and> targetAsset \<noteq> 0
          \<and> erc20_balanceOf ext targetAsset (this s) w2 = Some bal \<and> bal > 0
          \<and> erc20_safeIncreaseAllowance ext targetAsset (targetVault p) bal w2 = Some w3
          \<and> erc4626_deposit ext (targetVault p) bal (this s) w3 = Some (newShares, w4)
          \<and> newShares \<ge> minSharesOut p
        \<longrightarrow> transact (optimizePosition ext sender idx p) s =
             (Inr newShares,
              s\<lparr>userPositions := (userPositions s)(sender := (userPositions s sender)
                   [unat idx := (userPositions s sender ! unat idx)
                      \<lparr>vault := targetVault p, asset := targetAsset,
                       shares := newShares, assets := bal\<rparr>]),
                world := w4\<rparr>))
   \<and> (\<forall>w1 e. reachesSwaps ext sender idx p s w1
          \<and> swapPhase ext (whitelistedRouters s) p w1 = Inl e
        \<longrightarrow> transact (optimizePosition ext sender idx p) s = (Inl e, s))
   \<and> (\<forall>w1 pre i post wi wa.
          reachesSwaps ext sender idx p s w1
          \<and> length (routers p) = length (calldatas p)
          \<and> length (routers p) = length (inputTokens p)
          \<and> length (routers p) = length (outputTokens p)
          \<and> length (routers p) = length (inputAmounts p)
          \<and> [0 ..< length (routers p)] = pre @ i # post
          \<and> executeSwaps ext (whitelistedRouters s) p pre w1 = Inr wi
          \<and> whitelistedRouters s (routers p ! i) \<and> inputTokens p ! i \<noteq> 0
          \<and> erc20_safeIncreaseAllowance ext (inputTokens p ! i) (routers p ! i)
               (inputAmounts p ! i) wi = Some wa
          \<and> \<not> fst (low_level_call ext (routers p ! i) (calldatas p ! i) wa)
        \<longrightarrow> transact (optimizePosition ext sender idx p) s = (Inl (Require ''Swap failed''), s))"
proof (intro conjI allI impI)
  show "(\<exists>e. transact (optimizePosition ext sender idx p) s = (Inl e, s))
    \<or> (\<exists>w1 w2 targetAsset bal w3 newShares w4.
         reachesSwaps ext sender idx p s w1
         \<and> swapPhase ext (whitelistedRouters s) p w1 = Inr w2
         \<and> erc4626_asset ext (targetVault p) w2 = Some targetAsset
         \<and> erc20_balanceOf ext targetAsset (this s) w2 = Some bal
         \<and> erc20_safeIncreaseAllowance ext targetAsset (targetVault p) bal w2 = Some w3
         \<and> erc4626_deposit ext (targetVault p) bal (this s) w3 = Some (newShares, w4)
         \<and> transact (optimizePosition ext sender idx p) s =
             (Inr newShares,
              s\<lparr>userPositions := (userPositions s)(sender := (userPositions s sender)
                   [unat idx := (userPositions s sender ! unat idx)
                      \<lparr>vault := targetVault p, asset := targetAsset,
                       shares := newShares, assets := bal\<rparr>]),
                world := w4\<rparr>))"
    by (rule optimizePosition_outcomes)
next
  fix w1 w2 targetAsset bal w3 newShares w4
  assume "reachesSwaps ext sender idx p s w1
          \<and> swapPhase ext (whitelistedRouters s) p w1 = Inr w2
          \<and> erc4626_asset ext (targetVault p) w2 = Some targetAsset \<and> targetAsset \<noteq> 0
          \<and> erc20_balanceOf ext targetAsset (this s) w2 = Some bal \<and> bal > 0
          \<and> erc20_safeIncreaseAllowance ext targetAsset (targetVault p) bal w2 = Some w3
          \<and> erc4626_deposit ext (targetVault p) bal (this s) w3 = Some (newShares, w4)
          \<and> newShares \<ge> minSharesOut p"
  then have "optimizePosition ext sender idx p s =
           Inr (newShares,
             s\<lparr>userPositions := (userPositions s)(sender := (userPositions s sender)
                  [unat idx := (userPositions s sender ! unat idx)
                     \<lparr>vault := targetVault p, asset := targetAsset,
                      shares := newShares, assets := bal\<rparr>]),
               world := w4\<rparr>)"
    by (intro optimizePosition_succeeds) blast+
  then show "transact (optimizePosition ext sender idx p) s =
             (Inr newShares,
              s\<lparr>userPositions := (userPositions s)(sender := (userPositions s sender)
                   [unat idx := (userPositions s sender ! unat idx)
                      \<lparr>vault := targetVault p, asset := targetAsset,
                       shares := newShares, assets := bal\<rparr>]),
                world := w4\<rparr>)"
    by (rule transact_Inr)
next
  fix w1 e
  assume "reachesSwaps ext sender idx p s w1
          \<and> swapPhase ext (whitelistedRouters s) p w1 = Inl e"
  then show "transact (optimizePosition ext sender idx p) s = (Inl e, s)"
    by (blast intro: reachesSwaps_failure)
next
  fix w1 pre i post wi wa
  assume h: "reachesSwaps ext sender idx p s w1
          \<and> length (routers p) = length (calldatas p)
          \<and> length (routers p) = length (inputTokens p)
          \<and> length (routers p) = length (outputTokens p)
          \<and> length (routers p) = length (inputAmounts p)
          \<and> [0 ..< length (routers p)] = pre @ i # post
          \<and> executeSwaps ext (whitelistedRouters s) p pre w1 = Inr wi
          \<and> whitelistedRouters s (routers p ! i) \<and> inputTokens p ! i \<noteq> 0
          \<and> erc20_safeIncreaseAllowance ext (inputTokens p ! i) (routers p ! i)
               (inputAmounts p ! i) wi = Some wa
          \<and> \<not> fst (low_level_call ext (routers p ! i) (calldatas p ! i) wa)"
  then have leg: "executeSwaps ext (whitelistedRouters s) p [i] wi = Inl (Require ''Swap failed'')"
    by (auto split: prod.splits)
  from h have nonempty: "length (routers p) > 0"
    by (cases "routers p") auto
  from h have idxs: "[0 ..< length (routers p)] = pre @ i # post"
    and pre: "executeSwaps ext (whitelistedRouters s) p pre w1 = Inr wi"
    and lens: "length (routers p) = length (calldatas p) \<and>
         length (routers p) = length (inputTokens p) \<and>
         length (routers p) = length (outputTokens p) \<and>
         length (routers p) = length (inputAmounts p)"
    by blast+
  have "executeSwaps ext (whitelistedRouters s) p (pre @ i # post) w1
      = Inl (Require ''Swap failed'')"
    using pre leg by (rule executeSwaps_leg_fails)
  then have ex: "executeSwaps ext (whitelistedRouters s) p [0 ..< length (routers p)] w1
      = Inl (Require ''Swap failed'')"
    by (simp only: idxs)
  have "swapPhase ext (whitelistedRouters s) p w1
      = executeSwaps ext (whitelistedRouters s) p [0 ..< length (routers p)] w1"
    using nonempty lens by (rule swapPhase_executes)
  from this ex have "swapPhase ext (whitelistedRouters s) p w1 = Inl (Require ''Swap failed'')"
    by (rule trans)
  with h show "transact (optimizePosition ext sender idx p) s = (Inl (Require ''Swap failed''), s)"
    by (blast intro: reachesSwaps_failure)
qed

lemma toy_reachesSwaps:
  "reachesSwaps toy_chain alice 0 failingLeg (toy_ledger [posA 5] (\<lambda>_. 0)) ((\<lambda>_. 0)(tokenA := 10))"
  by (simp add: reachesSwaps_def toy_ledger_def toy_chain_def posA_def failingLeg_def
      toy_asset_def vaultA_def vaultB_def vaultA2_def)

lemma toy_leg_conditions:
  "[0 ..< length (routers failingLeg)] = [] @ 0 # []"
  "whitelistedRouters (toy_ledger [posA 5] (\<lambda>_. 0)) (routers failingLeg ! 0)"
  "inputTokens failingLeg ! 0 \<noteq> 0"
  "erc20_safeIncreaseAllowance toy_chain (inputTokens failingLeg ! 0) (routers failingLeg ! 0)
     (inputAmounts failingLeg ! 0) ((\<lambda>_. 0)(tokenA := 10)) = Some ((\<lambda>_. 0)(tokenA := 10))"
  "\<not> fst (low_level_call toy_chain (routers failingLeg ! 0) (calldatas failingLeg ! 0)
      ((\<lambda>_. 0)(tokenA := 10)))"
  by (simp_all add: failingLeg_def toy_ledger_def toy_chain_def tokenA_def)

lemma toy_noLegs_reaches:
  "reachesSwaps toy_chain alice 0 noLegs (toy_ledger [posA 5] strayB) (strayB(tokenA := 10))"
  by (simp add: reachesSwaps_def toy_ledger_def toy_chain_def posA_def noLegs_def strayB_def
      toy_asset_def vaultA_def vaultB_def vaultA2_def tokenA_def tokenB_def)

lemma toy_noLegs_facts:
  "routers noLegs = []"
  "erc4626_asset toy_chain (targetVault noLegs) (strayB(tokenA := 10)) = Some tokenB"
  "tokenB \<noteq> 0"
  "erc20_balanceOf toy_chain tokenB (this (toy_ledger [posA 5] strayB)) (strayB(tokenA := 10)) = Some 8"
  "erc20_safeIncreaseAllowance toy_chain tokenB (targetVault noLegs) 8 (strayB(tokenA := 10))
     = Some (strayB(tokenA := 10))"
  "erc4626_deposit toy_chain (targetVault noLegs) 8 (this (toy_ledger [posA 5] strayB))
     (strayB(tokenA := 10)) = Some (4, (strayB(tokenA := 10))(tokenB := 0))"
  "minSharesOut noLegs \<le> 4"
  by (simp_all add: noLegs_def toy_chain_def toy_asset_def strayB_def toy_ledger_def
      vaultA_def vaultB_def vaultA2_def tokenA_def tokenB_def)

lemma toy_noLegs_swapPhase:
  "swapPhase toy_chain (whitelistedRouters (toy_ledger [posA 5] strayB)) noLegs (strayB(tokenA := 10))
     = Inr (strayB(tokenA := 10))"
  by (simp add: swapPhase_def noLegs_def)

lemma toy_noLegs_positive: "(0::uint256) < 8"
  by simp

theorem optimizePosition_all_or_nothing_witness:
  "transact (optimizePosition toy_chain alice 0 failingLeg) (toy_ledger [posA 5] (\<lambda>_. 0))
       = (Inl (Require ''Swap failed''), toy_ledger [posA 5] (\<lambda>_. 0))
   \<and> transact (optimizePosition toy_chain alice 0 noLegs) (toy_ledger [posA 5] strayB) =
       (Inr 4, (toy_ledger [posA 5] strayB)\<lparr>userPositions :=
          (userPositions (toy_ledger [posA 5] strayB))(alice :=
            (userPositions (toy_ledger [posA 5] strayB) alice)[unat (0::uint256) :=
               (userPositions (toy_ledger [posA 5] strayB) alice ! unat (0::uint256))
                 \<lparr>vault := targetVault noLegs, asset := tokenB, shares := 4, assets := 8\<rparr>]),
          world := (strayB(tokenA := 10))(tokenB := 0)\<rparr>)
   \<and> userPositions (snd (transact (optimizePosition toy_chain alice 0 noLegs)
         (toy_ledger [posA 5] strayB))) alice
       = [\<lparr>vault = vaultB, asset = tokenB, shares = 4, assets = 8, active = True\<rparr>]"
proof -
  let ?s = "toy_ledger [posA 5] (\<lambda>_. 0)"
  let ?w1 = "(\<lambda>_. 0)(tokenA := (10::uint256))"
  have lens: "length (routers failingLeg) = length (calldatas failingLeg)"
    "length (routers failingLeg) = length (inputTokens failingLeg)"
    "length (routers failingLeg) = length (outputTokens failingLeg)"
    "length (routers failingLeg) = length (inputAmounts failingLeg)"
    by (simp_all add: failingLeg_def)
  have pre: "executeSwaps toy_chain (whitelistedRouters ?s) failingLeg [] ?w1 = Inr ?w1"
    by simp
  have failed: "transact (optimizePosition toy_chain alice 0 failingLeg) ?s
       = (Inl (Require ''Swap failed''), ?s)"
    using optimizePosition_all_or_nothing [of toy_chain alice 0 failingLeg ?s,
        THEN conjunct2, THEN conjunct2, THEN conjunct2, rule_format,
        of ?w1 "[]" 0 "[]" ?w1 ?w1]
      toy_reachesSwaps lens toy_leg_conditions pre
    by blast
  have moved: "transact (optimizePosition toy_chain alice 0 noLegs) (toy_ledger [posA 5] strayB) =
       (Inr 4, (toy_ledger [posA 5] strayB)\<lparr>userPositions :=
          (userPositions (toy_ledger [posA 5] strayB))(alice :=
            (userPositions (toy_ledger [posA 5] strayB) alice)[unat (0::uint256) :=
               (userPositions (toy_ledger [posA 5] strayB) alice ! unat (0::uint256))
                 \<lparr>vault := targetVault noLegs, asset := tokenB, shares := 4, assets := 8\<rparr>]),
          world := (strayB(tokenA := 10))(tokenB := 0)\<rparr>)"
    using optimizePosition_all_or_nothing [of toy_chain alice 0 noLegs "toy_ledger [posA 5] strayB",
        THEN conjunct2, THEN conjunct1, rule_format,
        of "strayB(tokenA := 10)" "strayB(tokenA := 10)" tokenB 8 "strayB(tokenA := 10)" 4
           "(strayB(tokenA := 10))(tokenB := 0)"]
      toy_noLegs_reaches toy_noLegs_swapPhase toy_noLegs_facts(2-7) toy_noLegs_positive
    by blast
  have shown: "userPositions (snd (transact (optimizePosition toy_chain alice 0 noLegs)
         (toy_ledger [posA 5] strayB))) alice
       = [\<lparr>vault = vaultB, asset = tokenB, shares = 4, assets = 8, active = True\<rparr>]"
    by (simp only: moved snd_conv)
       (simp add: toy_ledger_def posA_def noLegs_def)
  from failed moved shown show ?thesis by blast
qed

subsection \<open>Reallocation without swap legs\<close>

lemma optimizePosition_no_legs_run:
  assumes "routers p = []" "reachesSwaps ext sender idx p s w1"
    "erc4626_asset ext (targetVault p) w1 = Some targetAsset" "targetAsset \<noteq> 0"
    "erc20_balanceOf ext targetAsset (this s) w1 = Some bal"
  shows "optimizePosition ext sender idx p s =
    (if \<not> bal > 0 then Inl (Require ''No assets after swap'')
     else case erc20_safeIncreaseAllowance ext targetAsset (targetVault p) bal w1 of
       None \<Rightarrow> Inl CallReverted
     | Some w3 \<Rightarrow>
        (case erc4626_deposit ext (targetVault p) bal (this s) w3 of
           None \<Rightarrow> Inl CallReverted
         | Some (newShares, w4) \<Rightarrow>
            if \<not> newShares \<ge> minSharesOut p then Inl (Require ''Insufficient shares'')
            else Inr (newShares,
              s\<lparr>userPositions := (userPositions s)(sender := (userPositions s sender)
                   [unat idx := (userPositions s sender ! unat idx)
                      \<lparr>vault := targetVault p, asset := targetAsset,
                       shares := newShares, assets := bal\<rparr>]),
                world := w4\<rparr>)))"
proof -
  from assms(2) obtain r where
    "erc4626_redeem ext (vault (userPositions s sender ! unat idx))
        (shares (userPositions s sender ! unat idx)) (this s) (this s) (world s) = Some (r, w1)"
    by (auto simp: reachesSwaps_def)
  moreover have "swapPhase ext (whitelistedRouters s) p w1 = Inr w1"
    using assms(1) by (simp add: swapPhase_def)
  ultimately show ?thesis
    using assms by (simp add: optimizePosition_def Let_def reachesSwaps_def)
qed

text \<open>
  C3, as the code has it. With no swap legs the call compares no assets: once the source
  vault has paid out, it reads the ledger's balance of the target vault's asset. It fails
  with "No assets after swap" when that balance is zero; when the balance is positive
  and the target vault accepts it for at least \<open>minSharesOut\<close> shares, the call succeeds
  and deposits that balance, whatever asset the position held before.
\<close>

theorem optimizePosition_no_legs:
  assumes "routers p = []" "reachesSwaps ext sender idx p s w1"
    "erc4626_asset ext (targetVault p) w1 = Some targetAsset" "targetAsset \<noteq> 0"
    "erc20_balanceOf ext targetAsset (this s) w1 = Some bal"
  shows "(bal = 0 \<longrightarrow>
            transact (optimizePosition ext sender idx p) s = (Inl (Require ''No assets after swap''), s))
       \<and> (\<forall>w3 newShares w4.
            bal > 0
            \<and> erc20_safeIncreaseAllowance ext targetAsset (targetVault p) bal w1 = Some w3
            \<and> erc4626_deposit ext (targetVault p) bal (this s) w3 = Some (newShares, w4)
            \<and> newShares \<ge> minSharesOut p
          \<longrightarrow> transact (optimizePosition ext sender idx p) s =
               (Inr newShares,
                s\<lparr>userPositions := (userPositions s)(sender := (userPositions s sender)
                     [unat idx := (userPositions s sender ! unat idx)
                        \<lparr>vault := targetVault p, asset := targetAsset,
                         shares := newShares, assets := bal\<rparr>]),
                  world := w4\<rparr>))"
  by (simp add: optimizePosition_no_legs_run [OF assms] transact_def)

lemma toy_noLegs_empty_reaches:
  "reachesSwaps toy_chain alice 0 noLegs (toy_ledger [posA 5] (\<lambda>_. 0)) ((\<lambda>_. 0)(tokenA := 10))"
  by (simp add: reachesSwaps_def toy_ledger_def toy_chain_def posA_def noLegs_def
      toy_asset_def vaultA_def vaultB_def vaultA2_def tokenA_def tokenB_def)

lemma toy_noLegs_empty_facts:
  "erc4626_asset toy_chain (targetVault noLegs) ((\<lambda>_. 0)(tokenA := 10)) = Some tokenB"
  "erc20_balanceOf toy_chain tokenB (this (toy_ledger [posA 5] (\<lambda>_. 0))) ((\<lambda>_. 0)(tokenA := 10)) = Some 0"
  by (simp_all add: noLegs_def toy_chain_def toy_asset_def toy_ledger_def
      vaultA_def vaultB_def vaultA2_def tokenA_def tokenB_def)

theorem optimizePosition_no_legs_witness:
  "asset (userPositions (toy_ledger [posA 5] (\<lambda>_. 0)) alice ! unat (0::uint256)) \<noteq> tokenB
   \<and> transact (optimizePosition toy_chain alice 0 noLegs) (toy_ledger [posA 5] (\<lambda>_. 0))
       = (Inl (Require ''No assets after swap''), toy_ledger [posA 5] (\<lambda>_. 0))
   \<and> fst (transact (optimizePosition toy_chain alice 0 noLegs) (toy_ledger [posA 5] strayB)) = Inr 4"
proof (intro conjI)
  show "asset (userPositions (toy_ledger [posA 5] (\<lambda>_. 0)) alice ! unat (0::uint256)) \<noteq> tokenB"
    by (simp add: toy_ledger_def posA_def tokenA_def tokenB_def)
  show "transact (optimizePosition toy_chain alice 0 noLegs) (toy_ledger [posA 5] (\<lambda>_. 0))
       = (Inl (Require ''No assets after swap''), toy_ledger [posA 5] (\<lambda>_. 0))"
    using optimizePosition_no_legs [OF toy_noLegs_facts(1) toy_noLegs_empty_reaches
        toy_noLegs_empty_facts(1) toy_noLegs_facts(3) toy_noLegs_empty_facts(2)]
    by blast
  have "transact (optimizePosition toy_chain alice 0 noLegs) (toy_ledger [posA 5] strayB) =
     (Inr 4, (toy_ledger [posA 5] strayB)\<lparr>userPositions :=
        (userPositions (toy_ledger [posA 5] strayB))(alice :=
          (userPositions (toy_ledger [posA 5] strayB) alice)[unat (0::uint256) :=
             (userPositions (toy_ledger [posA 5] strayB) alice ! unat (0::uint256))
               \<lparr>vault := targetVault noLegs, asset := tokenB, shares := 4, assets := 8\<rparr>]),
        world := (strayB(tokenA := 10))(tokenB := 0)\<rparr>)"
    using optimizePosition_no_legs [OF toy_noLegs_facts(1) toy_noLegs_reaches
        toy_noLegs_facts(2,3,4), THEN conjunct2, rule_format,
        of "strayB(tokenA := 10)" 4 "(strayB(tokenA := 10))(tokenB := 0)"]
      toy_noLegs_facts(5,6,7)
    by simp
  then show "fst (transact (optimizePosition toy_chain alice 0 noLegs) (toy_ledger [posA 5] strayB)) = Inr 4"
    by simp
qed

text \<open>
  The claim as stated fails: a position in \<open>vaultA\<close> (asset \<open>tokenA\<close>) is moved with no
  swap legs into \<open>vaultB\<close> (asset \<open>tokenB\<close>) while the ledger holds 8 units of
  \<open>tokenB\<close>. The call succeeds, deposits those 8 units and rewrites the position.
\<close>

theorem zero_legs_mismatch_counterexample:
  "routers noLegs = []
   \<and> asset (userPositions (toy_ledger [posA 5] strayB) alice ! unat (0::uint256)) = tokenA
   \<and> erc4626_asset toy_chain (targetVault noLegs) (world (toy_ledger [posA 5] strayB)) = Some tokenB
   \<and> tokenA \<noteq> tokenB
   \<and> fst (transact (optimizePosition toy_chain alice 0 noLegs) (toy_ledger [posA 5] strayB)) = Inr 4
   \<and> userPositions (snd (transact (optimizePosition toy_chain alice 0 noLegs)
         (toy_ledger [posA 5] strayB))) alice
       = [\<lparr>vault = vaultB, asset = tokenB, shares = 4, assets = 8, active = True\<rparr>]"
proof -
  have run: "optimizePosition toy_chain alice 0 noLegs (toy_ledger [posA 5] strayB) =
     Inr (4, (toy_ledger [posA 5] strayB)\<lparr>userPositions :=
        (userPositions (toy_ledger [posA 5] strayB))(alice :=
          (userPositions (toy_ledger [posA 5] strayB) alice)[unat (0::uint256) :=
             (userPositions (toy_ledger [posA 5] strayB) alice ! unat (0::uint256))
               \<lparr>vault := targetVault noLegs, asset := tokenB, shares := 4, assets := 8\<rparr>]),
        world := (strayB(tokenA := 10))(tokenB := 0)\<rparr>)"
    by (simp add: optimizePosition_no_legs_run [OF toy_noLegs_facts(1) toy_noLegs_reaches
          toy_noLegs_facts(2,3,4)] toy_noLegs_facts)
  show ?thesis
    by (simp add: transact_def run)
       (simp add: toy_ledger_def posA_def noLegs_def toy_chain_def toy_asset_def
          vaultA_def vaultB_def vaultA2_def tokenA_def tokenB_def)
qed

subsection \<open>What each mutation stores in a position\<close>

lemma withdraw_success_invariant:
  assumes "withdraw ext sender idx sh minAssetsOut s = Inr (out, s')"
  shows "unat idx < length (userPositions s' sender)
         \<and> positionInvariant ext (world s') (userPositions s' sender ! unat idx)"
  using assms
  by (auto simp: withdraw_def Let_def positionInvariant_def
           split: if_splits option.splits prod.splits)

lemma deposit_success_position:
  assumes "deposit ext sender val v amount minOut s = Inr (sh, s')"
  shows "\<exists>a w2. userPositions s' sender = userPositions s sender @
            [\<lparr>vault = v, asset = a, shares = sh, assets = amount, active = True\<rparr>]
          \<and> erc4626_deposit ext v amount (this s) w2 = Some (sh, world s')"
  using assms
  by (auto simp: deposit_def split: if_splits option.splits prod.splits)

lemma optimizePosition_success_position:
  assumes "optimizePosition ext sender idx p s = Inr (n, s')"
  shows "unat idx < length (userPositions s sender)
     \<and> active (userPositions s' sender ! unat idx) = active (userPositions s sender ! unat idx)
     \<and> vault (userPositions s' sender ! unat idx) = targetVault p
     \<and> shares (userPositions s' sender ! unat idx) = n
     \<and> (\<exists>w2 w3. erc20_balanceOf ext (asset (userPositions s' sender ! unat idx)) (this s) w2
                    = Some (assets (userPositions s' sender ! unat idx))
          \<and> erc4626_deposit ext (targetVault p) (assets (userPositions s' sender ! unat idx))
               (this s) w3 = Some (n, world s'))"
  using assms
  by (auto simp: optimizePosition_def Let_def
           split: if_splits option.splits prod.splits sum.splits)

text \<open>
  C2, as the code has it. After a successful \<open>withdraw\<close> the position it touched
  satisfies the invariant: its \<open>assets\<close> is the vault's \<open>convertToAssets\<close> of the shares
  left, and it is inactive when none are left. \<open>deposit\<close> stores the caller's \<open>_amount\<close>,
  the amount it paid into the vault for the shares, and sets \<open>active\<close>;
  \<open>optimizePosition\<close> stores the balance of the target asset that it paid into the target
  vault for the new shares, and leaves \<open>active\<close> as it was.
\<close>

theorem position_fields_after_mutation:
  "(\<forall>out s'. transact (withdraw ext sender idx sh minAssetsOut) s = (Inr out, s') \<longrightarrow>
        unat idx < length (userPositions s' sender)
        \<and> positionInvariant ext (world s') (userPositions s' sender ! unat idx))
   \<and> (\<forall>got s'. transact (deposit ext sender val v amount minOut) s = (Inr got, s') \<longrightarrow>
        (\<exists>a w2. userPositions s' sender = userPositions s sender @
            [\<lparr>vault = v, asset = a, shares = got, assets = amount, active = True\<rparr>]
          \<and> erc4626_deposit ext v amount (this s) w2 = Some (got, world s')))
   \<and> (\<forall>n s'. transact (optimizePosition ext sender idx p) s = (Inr n, s') \<longrightarrow>
        unat idx < length (userPositions s sender)
        \<and> active (userPositions s' sender ! unat idx) = active (userPositions s sender ! unat idx)
        \<and> vault (userPositions s' sender ! unat idx) = targetVault p
        \<and> shares (userPositions s' sender ! unat idx) = n
        \<and> (\<exists>w2 w3. erc20_balanceOf ext (asset (userPositions s' sender ! unat idx)) (this s) w2
                    = Some (assets (userPositions s' sender ! unat idx))
             \<and> erc4626_deposit ext (targetVault p) (assets (userPositions s' sender ! unat idx))
                  (this s) w3 = Some (n, world s')))"
  apply (rule conjI)
   apply (intro allI impI, simp only: transact_Inr_iff, erule withdraw_success_invariant)
  apply (rule conjI)
   apply (intro allI impI, simp only: transact_Inr_iff, erule deposit_success_position)
  apply (intro allI impI, simp only: transact_Inr_iff, erule optimizePosition_success_position)
  done

lemma toy_small_deposit:
  "deposit toy_chain alice 0 vaultA 1 0 (toy_ledger [] (\<lambda>_. 0)) =
    Inr (0, (toy_ledger [] (\<lambda>_. 0))\<lparr>userPositions :=
        (userPositions (toy_ledger [] (\<lambda>_. 0)))(alice :=
           [\<lparr>vault = vaultA, asset = tokenA, shares = 0, assets = 1, active = True\<rparr>]),
        world := ((\<lambda>_. 0)(tokenA := 1))(tokenA := 0)\<rparr>)"
  by (simp add: deposit_def toy_ledger_def toy_chain_def toy_asset_def
      vaultA_def vaultA2_def vaultB_def tokenA_def)

lemma toy_withdraw_two:
  "transact (withdraw toy_chain alice 0 2 0) (toy_ledger [posA 5] (\<lambda>_. 0)) =
    (Inr 4, (toy_ledger [posA 5] (\<lambda>_. 0))\<lparr>userPositions :=
        (userPositions (toy_ledger [posA 5] (\<lambda>_. 0)))(alice :=
           [\<lparr>vault = vaultA, asset = tokenA, shares = 3, assets = 6, active = True\<rparr>]),
        world := (\<lambda>_. 0)(tokenA := 4)\<rparr>)"
  by (simp add: transact_def withdraw_def toy_ledger_def toy_chain_def toy_asset_def posA_def
      vaultA_def vaultA2_def vaultB_def tokenA_def)

lemma toy_noLegs_transact:
  "transact (optimizePosition toy_chain alice 0 noLegs) (toy_ledger [posA 5] strayB) =
     (Inr 4, (toy_ledger [posA 5] strayB)\<lparr>userPositions :=
        (userPositions (toy_ledger [posA 5] strayB))(alice :=
          (userPositions (toy_ledger [posA 5] strayB) alice)[unat (0::uint256) :=
             (userPositions (toy_ledger [posA 5] strayB) alice ! unat (0::uint256))
               \<lparr>vault := targetVault noLegs, asset := tokenB, shares := 4, assets := 8\<rparr>]),
        world := (strayB(tokenA := 10))(tokenB := 0)\<rparr>)"
  by (simp add: transact_def optimizePosition_no_legs_run [OF toy_noLegs_facts(1) toy_noLegs_reaches
          toy_noLegs_facts(2,3,4)] toy_noLegs_facts)

theorem position_fields_after_mutation_witness:
  "(\<exists>s'. transact (withdraw toy_chain alice 0 2 0) (toy_ledger [posA 5] (\<lambda>_. 0)) = (Inr 4, s')
      \<and> positionInvariant toy_chain (world s') (userPositions s' alice ! unat (0::uint256)))
   \<and> (\<exists>s' a. transact (deposit toy_chain alice 0 vaultA 1 0) (toy_ledger [] (\<lambda>_. 0)) = (Inr 0, s')
      \<and> userPositions s' alice = userPositions (toy_ledger [] (\<lambda>_. 0)) alice @
            [\<lparr>vault = vaultA, asset = a, shares = 0, assets = 1, active = True\<rparr>])
   \<and> (\<exists>s'. transact (optimizePosition toy_chain alice 0 noLegs) (toy_ledger [posA 5] strayB) = (Inr 4, s')
      \<and> shares (userPositions s' alice ! unat (0::uint256)) = 4
      \<and> active (userPositions s' alice ! unat (0::uint256))
          = active (userPositions (toy_ledger [posA 5] strayB) alice ! unat (0::uint256)))"
proof (intro conjI)
  note main = position_fields_after_mutation
  show "\<exists>s'. transact (withdraw toy_chain alice 0 2 0) (toy_ledger [posA 5] (\<lambda>_. 0)) = (Inr 4, s')
      \<and> positionInvariant toy_chain (world s') (userPositions s' alice ! unat (0::uint256))"
    using main [THEN conjunct1, rule_format, OF toy_withdraw_two] toy_withdraw_two by blast
  have dep: "transact (deposit toy_chain alice 0 vaultA 1 0) (toy_ledger [] (\<lambda>_. 0)) =
    (Inr 0, (toy_ledger [] (\<lambda>_. 0))\<lparr>userPositions :=
        (userPositions (toy_ledger [] (\<lambda>_. 0)))(alice :=
           [\<lparr>vault = vaultA, asset = tokenA, shares = 0, assets = 1, active = True\<rparr>]),
        world := ((\<lambda>_. 0)(tokenA := 1))(tokenA := 0)\<rparr>)"
    by (simp add: transact_def toy_small_deposit)
  show "\<exists>s' a. transact (deposit toy_chain alice 0 vaultA 1 0) (toy_ledger [] (\<lambda>_. 0)) = (Inr 0, s')
      \<and> userPositions s' alice = userPositions (toy_ledger [] (\<lambda>_. 0)) alice @
            [\<lparr>vault = vaultA, asset = a, shares = 0, assets = 1, active = True\<rparr>]"
    using main [THEN conjunct2, THEN conjunct1, rule_format, OF dep] dep by blast
  show "\<exists>s'. transact (optimizePosition toy_chain alice 0 noLegs) (toy_ledger [posA 5] strayB) = (Inr 4, s')
      \<and> shares (userPositions s' alice ! unat (0::uint256)) = 4
      \<and> active (userPositions s' alice ! unat (0::uint256))
          = active (userPositions (toy_ledger [posA 5] strayB) alice ! unat (0::uint256))"
    using main [THEN conjunct2, THEN conjunct2, rule_format, OF toy_noLegs_transact]
      toy_noLegs_transact by blast
qed

text \<open>
  The claim as stated fails after \<open>deposit\<close>: one unit paid into a vault that gives one
  share for two units yields no share. The new position is active with zero shares, and
  its \<open>assets\<close> is the caller's 1 while the vault values zero shares at 0.
\<close>

theorem position_invariant_counterexample:
  "fst (transact (deposit toy_chain alice 0 vaultA 1 0) (toy_ledger [] (\<lambda>_. 0))) = Inr 0
   \<and> userPositions (snd (transact (deposit toy_chain alice 0 vaultA 1 0) (toy_ledger [] (\<lambda>_. 0)))) alice
       = [\<lparr>vault = vaultA, asset = tokenA, shares = 0, assets = 1, active = True\<rparr>]
   \<and> \<not> positionInvariant toy_chain
         (world (snd (transact (deposit toy_chain alice 0 vaultA 1 0) (toy_ledger [] (\<lambda>_. 0)))))
         (last (userPositions (snd (transact (deposit toy_chain alice 0 vaultA 1 0)
             (toy_ledger [] (\<lambda>_. 0)))) alice))"
  by (simp add: transact_def toy_small_deposit positionInvariant_def)

section \<open>Properties of the services\<close>

lemma thrown_facts [simp]:
  "\<not> success (thrown u i msg)" "res_userAddress (thrown u i msg) = u"
  by (simp_all add: thrown_def)

lemma declined_facts [simp]:
  "\<not> success (declined u i cur c best why)" "res_userAddress (declined u i cur c best why) = u"
  by (simp_all add: declined_def)

lemma optimized_facts [simp]:
  "success (optimized u i cur c best txhash)"
  "res_userAddress (optimized u i cur c best txhash) = u"
  "fromVault (optimized u i cur c best txhash) = pos_vault cur"
  "toVault (optimized u i cur c best txhash) = opp_vault best"
  "transactionHash (optimized u i cur c best txhash) = Some txhash"
  by (simp_all add: optimized_def)

lemma saveYieldOptimization_cases:
  assumes "saveYieldOptimization env d s = (r, s')"
  shows "optimizeCalls s' = optimizeCalls s
     \<and> ((\<exists>msg. r = Inl msg \<and> optimizations s' = optimizations s
            \<and> fst (storeSave env (lowered d) (outside s)) = Inl msg)
        \<or> (r = Inr () \<and> optimizations s' = optimizations s @ [lowered d]
            \<and> fst (storeSave env (lowered d) (outside s)) = Inr ()))"
  using assms
  by (auto simp: saveYieldOptimization_def split: prod.splits sum.splits)

text \<open>What the last part of the call does, by the receipt and the answer of the store.\<close>

lemma confirmAndRecord_cases:
  assumes "confirmAndRecord env u i cur c best txhash s = (result, s')"
  shows "optimizeCalls s' = optimizeCalls s
     \<and> ((\<exists>x1. waitForTransactionReceipt env txhash (outside s) = (Inr True, x1)
             \<and> fst (storeSave env (lowered (optimizationDoc u i cur c best txhash (dateNow env x1))) x1)
                 = Inr ()
             \<and> result = optimized u i cur c best txhash
             \<and> optimizations s' = optimizations s
                  @ [lowered (optimizationDoc u i cur c best txhash (dateNow env x1))])
        \<or> ((\<forall>x1. waitForTransactionReceipt env txhash (outside s) = (Inr True, x1)
               \<longrightarrow> fst (storeSave env (lowered (optimizationDoc u i cur c best txhash
                           (dateNow env x1))) x1) \<noteq> Inr ())
            \<and> (\<exists>msg. result = thrown u i msg) \<and> optimizations s' = optimizations s))"
proof -
  obtain rc x1 where w: "waitForTransactionReceipt env txhash (outside s) = (rc, x1)"
    by (cases "waitForTransactionReceipt env txhash (outside s)")
  show ?thesis
  proof (cases rc)
    case (Inl msg)
    with assms w show ?thesis by (auto simp: confirmAndRecord_def)
  next
    case (Inr ok)
    show ?thesis
    proof (cases ok)
      case False
      with assms w Inr show ?thesis by (auto simp: confirmAndRecord_def)
    next
      case True
      let ?d = "optimizationDoc u i cur c best txhash (dateNow env x1)"
      obtain r s1 where sv: "saveYieldOptimization env ?d (s\<lparr>outside := x1\<rparr>) = (r, s1)"
        by (cases "saveYieldOptimization env ?d (s\<lparr>outside := x1\<rparr>)")
      from saveYieldOptimization_cases [OF sv] assms w Inr True sv show ?thesis
        by (auto simp: confirmAndRecord_def)
    qed
  qed
qed

text \<open>The four ways through \<open>optimizePosition\<close> of the service.\<close>

lemma optimizePosition_service_cases:
  assumes "optimizePosition_service env t oc u i st = (result, st')"
  shows "(\<exists>x2. decide env t u i (outside st) = (Inl result, x2) \<and> st' = st\<lparr>outside := x2\<rparr>)
     \<or> (\<exists>cur c best x2 msg x3.
           decide env t u i (outside st) = (Inr (cur, c, best), x2)
           \<and> buildParams env oc cur best x2 = (Inl msg, x3)
           \<and> result = thrown u i msg \<and> st' = st\<lparr>outside := x3\<rparr>)
     \<or> (\<exists>cur c best x2 params x3 msg x4.
           decide env t u i (outside st) = (Inr (cur, c, best), x2)
           \<and> buildParams env oc cur best x2 = (Inr params, x3)
           \<and> writeContract env i params x3 = (Inl msg, x4)
           \<and> result = thrown u i msg
           \<and> st' = st\<lparr>outside := x4, optimizeCalls := optimizeCalls st @ [(i, params)]\<rparr>)
     \<or> (\<exists>cur c best x2 params x3 txhash x4.
           decide env t u i (outside st) = (Inr (cur, c, best), x2)
           \<and> buildParams env oc cur best x2 = (Inr params, x3)
           \<and> writeContract env i params x3 = (Inr txhash, x4)
           \<and> confirmAndRecord env u i cur c best txhash
                (st\<lparr>outside := x4, optimizeCalls := optimizeCalls st @ [(i, params)]\<rparr>) = (result, st'))"
  using assms
  by (auto simp: optimizePosition_service_def split: prod.splits sum.splits)

lemma decide_Inl:
  "decide env t u i x = (Inl r, x2) \<Longrightarrow> \<not> success r \<and> res_userAddress r = u"
  by (auto simp: decide_def Let_def split: prod.splits option.splits if_splits)

lemma decide_Inr:
  assumes "decide env t u i x = (Inr (cur, c, best), x2)"
  shows "i < length (fst (getUserPositions env u x))
     \<and> cur = fst (getUserPositions env u x) ! i
     \<and> pos_active cur
     \<and> c = orNumber (pos_apy cur) 0
     \<and> findBestYieldOpportunity env (pos_asset cur) (snd (getUserPositions env u x)) = (Some best, x2)
     \<and> t \<le> fsub (opp_apy best) c
     \<and> toLowerCase (opp_vault best) \<noteq> toLowerCase (pos_vault cur)"
  using assms
  by (auto simp: decide_def Let_def split: prod.splits option.splits if_splits)

lemma buildParams_Inr:
  "buildParams env oc cur best x = (Inr params, x3)
    \<Longrightarrow> tx_targetVault params = opp_vault best \<and> tx_minSharesOut params = 0"
  by (auto simp: buildParams_def split: prod.splits option.splits if_splits)

text \<open>What one call of the service leaves behind, whatever way it took.\<close>

lemma optimizePosition_service_effect:
  assumes run: "optimizePosition_service env t oc u i st = (result, st')"
  shows "res_userAddress result = u
     \<and> (optimizeCalls st' = optimizeCalls st
         \<or> (\<exists>cur c best x2 params x3.
              decide env t u i (outside st) = (Inr (cur, c, best), x2)
              \<and> buildParams env oc cur best x2 = (Inr params, x3)
              \<and> optimizeCalls st' = optimizeCalls st @ [(i, params)]))
     \<and> ((\<not> success result \<and> optimizations st' = optimizations st)
         \<or> (success result
             \<and> (\<exists>cur c best x2 params x3 txhash x4 x5.
              decide env t u i (outside st) = (Inr (cur, c, best), x2)
              \<and> buildParams env oc cur best x2 = (Inr params, x3)
              \<and> writeContract env i params x3 = (Inr txhash, x4)
              \<and> waitForTransactionReceipt env txhash x4 = (Inr True, x5)
              \<and> fst (storeSave env (lowered (optimizationDoc u i cur c best txhash (dateNow env x5))) x5)
                  = Inr ()
              \<and> fromVault result = pos_vault cur \<and> toVault result = opp_vault best
              \<and> transactionHash result = Some txhash
              \<and> optimizeCalls st' = optimizeCalls st @ [(i, params)]
              \<and> optimizations st' = optimizations st
                   @ [lowered (optimizationDoc u i cur c best txhash (dateNow env x5))])))"
  using optimizePosition_service_cases [OF run]
proof (elim disjE exE conjE)
  fix x2
  assume "decide env t u i (outside st) = (Inl result, x2)" "st' = st\<lparr>outside := x2\<rparr>"
  then show ?thesis using decide_Inl by fastforce
next
  fix cur c best x2 msg x3
  assume "result = thrown u i msg" "st' = st\<lparr>outside := x3\<rparr>"
  then show ?thesis by simp
next
  fix cur c best x2 params x3 msg x4
  assume "decide env t u i (outside st) = (Inr (cur, c, best), x2)"
    "buildParams env oc cur best x2 = (Inr params, x3)"
    "result = thrown u i msg"
    "st' = st\<lparr>outside := x4, optimizeCalls := optimizeCalls st @ [(i, params)]\<rparr>"
  then show ?thesis by simp
next
  fix cur c best x2 params x3 txhash x4
  assume d: "decide env t u i (outside st) = (Inr (cur, c, best), x2)"
    and b: "buildParams env oc cur best x2 = (Inr params, x3)"
    and w: "writeContract env i params x3 = (Inr txhash, x4)"
    and r: "confirmAndRecord env u i cur c best txhash
                (st\<lparr>outside := x4, optimizeCalls := optimizeCalls st @ [(i, params)]\<rparr>) = (result, st')"
  from confirmAndRecord_cases [OF r]
  have calls: "optimizeCalls st' = optimizeCalls st @ [(i, params)]"
    and rec: "(\<exists>x5. waitForTransactionReceipt env txhash x4 = (Inr True, x5)
             \<and> fst (storeSave env (lowered (optimizationDoc u i cur c best txhash (dateNow env x5))) x5)
                 = Inr ()
             \<and> result = optimized u i cur c best txhash
             \<and> optimizations st' = optimizations st
                  @ [lowered (optimizationDoc u i cur c best txhash (dateNow env x5))])
        \<or> ((\<exists>msg. result = thrown u i msg) \<and> optimizations st' = optimizations st)"
    by auto
  from rec have user: "res_userAddress result = u" by auto
  from calls d b have second: "optimizeCalls st' = optimizeCalls st
         \<or> (\<exists>cur c best x2 params x3.
              decide env t u i (outside st) = (Inr (cur, c, best), x2)
              \<and> buildParams env oc cur best x2 = (Inr params, x3)
              \<and> optimizeCalls st' = optimizeCalls st @ [(i, params)])"
    by blast
  from rec have third: "(\<not> success result \<and> optimizations st' = optimizations st)
         \<or> (success result
             \<and> (\<exists>cur c best x2 params x3 txhash x4 x5.
              decide env t u i (outside st) = (Inr (cur, c, best), x2)
              \<and> buildParams env oc cur best x2 = (Inr params, x3)
              \<and> writeContract env i params x3 = (Inr txhash, x4)
              \<and> waitForTransactionReceipt env txhash x4 = (Inr True, x5)
              \<and> fst (storeSave env (lowered (optimizationDoc u i cur c best txhash (dateNow env x5))) x5)
                  = Inr ()
              \<and> fromVault result = pos_vault cur \<and> toVault result = opp_vault best
              \<and> transactionHash result = Some txhash
              \<and> optimizeCalls st' = optimizeCalls st @ [(i, params)]
              \<and> optimizations st' = optimizations st
                   @ [lowered (optimizationDoc u i cur c best txhash (dateNow env x5))]))"
  proof (elim disjE exE conjE)
    fix x5
    assume a: "waitForTransactionReceipt env txhash x4 = (Inr True, x5)"
      "fst (storeSave env (lowered (optimizationDoc u i cur c best txhash (dateNow env x5))) x5) = Inr ()"
      "optimizations st' = optimizations st
          @ [lowered (optimizationDoc u i cur c best txhash (dateNow env x5))]"
      and res: "result = optimized u i cur c best txhash"
    have "success result" "fromVault result = pos_vault cur" "toVault result = opp_vault best"
      "transactionHash result = Some txhash"
      by (simp_all add: res)
    with a d b w calls show ?thesis by blast
  next
    fix msg
    assume "result = thrown u i msg" "optimizations st' = optimizations st"
    then show ?thesis by simp
  qed
  from user second third show ?thesis by blast
qed

lemma calm_positions: "getUserPositions calm ''0xu1'' 0 = ([inFirst 3], 1)"
  by code_simp

lemma calm_best:
  "findBestYieldOpportunity calm (pos_asset ([inFirst 3] ! 0)) 1 = (Some (offer secondVault double_4_2 3), 6)"
  by code_simp

lemma calm_conditions: "0 < length [inFirst 3]" "pos_active ([inFirst 3] ! 0)"
  by (simp_all add: inFirst_def)

lemma calm_numbers:
  "(1 / 2 :: rat) \<le> fsub (opp_apy (offer secondVault double_4_2 3)) (orNumber (pos_apy ([inFirst 3] ! 0)) 0)"
  "\<not> (2 :: rat) \<le> fsub (opp_apy (offer secondVault double_4_2 3)) (orNumber (pos_apy ([inFirst 3] ! 0)) 0)"
  "toLowerCase (opp_vault (offer secondVault double_4_2 3)) \<noteq> toLowerCase (pos_vault ([inFirst 3] ! 0))"
  by code_simp+

lemma jumpy_positions: "getUserPositions jumpy ''0xu1'' 0 = ([inFirst 3], 1)"
  by code_simp

lemma jumpy_best:
  "findBestYieldOpportunity jumpy (pos_asset ([inFirst 3] ! 0)) 1 = (Some (offer firstVault double_4_2 2), 6)"
  by code_simp

lemma jumpy_decide:
  "fst (decide jumpy (1 / 2) ''0xu1'' 0 0)
     = Inl (declined ''0xu1'' 0 (inFirst 3) 3 (offer firstVault double_4_2 2) AlreadyInBestVault)"
  by code_simp

lemma calm_call:
  "drop (length (optimizeCalls fresh))
     (optimizeCalls (snd (optimizePosition_service calm (1 / 2) ''0xoptimizer'' ''0xu1'' 0 fresh)))
   = [(0, \<lparr>tx_routers = [], tx_calldatas = [], tx_inputTokens = [], tx_outputTokens = [],
            tx_inputAmounts = [], tx_targetVault = secondVault, tx_minSharesOut = 0\<rparr>)]"
  by code_simp

lemma calm_success:
  "success (fst (optimizePosition_service calm (1 / 2) ''0xoptimizer'' ''0xu1'' 0 fresh))"
  by code_simp

subsection \<open>Doubles\<close>

text \<open>
  The constants are the doubles of their decimal literals. \<open>4.2 - 3\<close> is
  \<open>1.2000000000000002\<close>, \<open>0.7 - 0.2\<close> is \<open>0.49999999999999994\<close> and \<open>0.6 - 0.1\<close> is
  \<open>0.5\<close>, although the exact difference of the last two doubles is below one half.
  The mean of the readings 0.1 and 0.2 is \<open>0.15000000000000002\<close>.
\<close>

lemma double_literals:
  "double_4_2 = round64 (42 / 10)" "double_0_1 = round64 (1 / 10)" "double_0_2 = round64 (2 / 10)"
  "double_0_6 = round64 (6 / 10)" "double_0_7 = round64 (7 / 10)"
  by code_simp+

lemma double_differences:
  "fsub double_4_2 3 = 5404319552844596 / 4503599627370496"
  "fsub double_0_7 double_0_2 = 9007199254740991 / 18014398509481984"
  "fsub double_0_6 double_0_1 = 1 / 2"
  "double_0_6 - double_0_1 < 1 / 2"
  by code_simp+

lemma readAPY_mean_rounded:
  "readAPY \<lparr>data_vault = None, data_asset = None,
            data_historicalAPY =
              [\<lparr>point_timestamp = 0, point_apy = double_0_1, point_apr = 0\<rparr>,
               \<lparr>point_timestamp = 1, point_apy = double_0_2, point_apr = 0\<rparr>],
            data_averageAPY = None, data_currentAPY = None\<rparr>
     = 1351079888211149 / 9007199254740992"
  by code_simp

subsection \<open>From readings to opportunities\<close>

lemma opportunityOf_unusable: "unusable r \<Longrightarrow> opportunityOf vaultAddress now r = []"
  by (auto simp: unusable_def opportunityOf_def Let_def split: option.splits)

lemma collectOpportunities_append:
  "collectOpportunities env chainID (pre @ post) x =
    (case collectOpportunities env chainID pre x of
       (a, x1) \<Rightarrow> (case collectOpportunities env chainID post x1 of (b, x2) \<Rightarrow> (a @ b, x2)))"
  by (induction pre arbitrary: x) (auto split: prod.splits)

lemma getYieldOpportunities_skips:
  assumes "collectOpportunities env chainID pre x = (a, x1)"
    and "getHistoricalAPY env chainID vaultAddress x1 = (r, x2)"
    and "unusable r"
    and "collectOpportunities env chainID post x2 = (b, x3)"
  shows "getYieldOpportunities env (pre @ vaultAddress # post) chainID x
          = (sort_key (\<lambda>opp. - opp_apy opp) (a @ b), x3)"
  using assms
  by (simp add: getYieldOpportunities_def collectOpportunities_append opportunityOf_unusable)

lemma collectOpportunities_queries:
  "fst (collectOpportunities env chainID vaults x) =
    concat (map (\<lambda>k.
        case getHistoricalAPY env chainID (vaults ! k)
               (fold (\<lambda>v y. snd (getHistoricalAPY env chainID v y)) (take k vaults) x) of
          (r, x1) \<Rightarrow> opportunityOf (vaults ! k) (dateNow env x1) r)
      [0 ..< length vaults])"
proof (induction vaults arbitrary: x)
  case Nil
  then show ?case by simp
next
  case (Cons v vs)
  obtain r x1 where q: "getHistoricalAPY env chainID v x = (r, x1)"
    by (cases "getHistoricalAPY env chainID v x")
  obtain rest x2 where c: "collectOpportunities env chainID vs x1 = (rest, x2)"
    by (cases "collectOpportunities env chainID vs x1")
  have idx: "[0 ..< length (v # vs)] = 0 # map Suc [0 ..< length vs]"
    by (simp add: upt_conv_Cons map_Suc_upt del: upt_Suc)
  have "rest = concat (map (\<lambda>k.
        case getHistoricalAPY env chainID (vs ! k)
               (fold (\<lambda>v y. snd (getHistoricalAPY env chainID v y)) (take k vs) x1) of
          (r, x1) \<Rightarrow> opportunityOf (vs ! k) (dateNow env x1) r)
      [0 ..< length vs])"
    using Cons.IH [of x1] by (simp add: c)
  then show ?case
    by (simp only: idx) (simp add: q c comp_def)
qed

lemma opportunityOf_usable:
  "\<not> unusable r \<Longrightarrow> opportunityOf vaultAddress now r =
     [\<lparr>opp_vault = vaultAddress,
       opp_asset = orString (data_asset (the (apy_data (the r)))) ''unknown'',
       opp_apy = readAPY (the (apy_data (the r))),
       opp_apr = orNumber (data_currentAPY (the (apy_data (the r)))) (readAPY (the (apy_data (the r)))),
       opp_timestamp = now\<rparr>]"
  by (auto simp: unusable_def opportunityOf_def Let_def split: option.splits)

subsection \<open>Choosing the best opportunity\<close>

lemma hd_sort_key_first_least:
  fixes f :: "'a \<Rightarrow> 'k::linorder"
  assumes "xs \<noteq> []"
  shows "\<exists>pre b post. xs = pre @ b # post \<and> (\<forall>y\<in>set pre. f b < f y)
           \<and> (\<forall>y\<in>set post. f b \<le> f y) \<and> hd (sort_key f xs) = b"
  using assms
proof (induction xs)
  case Nil
  then show ?case by simp
next
  case (Cons x xs)
  show ?case
  proof (cases "xs = []")
    case True
    then have "x # xs = [] @ x # []" and "hd (sort_key f (x # xs)) = x" by simp_all
    then show ?thesis by (metis empty_iff list.set(1))
  next
    case False
    with Cons.IH obtain pre b post where
      split: "xs = pre @ b # post" and before: "\<forall>y\<in>set pre. f b < f y"
      and after: "\<forall>y\<in>set post. f b \<le> f y" and hd: "hd (sort_key f xs) = b"
      by blast
    have nonempty: "sort_key f xs \<noteq> []"
      using False by (metis length_sort length_0_conv)
    then obtain rest where sorted: "sort_key f xs = b # rest"
      using hd by (cases "sort_key f xs") auto
    show ?thesis
    proof (cases "f x \<le> f b")
      case True
      then have "hd (sort_key f (x # xs)) = x" by (simp add: sorted)
      moreover have "\<forall>y\<in>set xs. f x \<le> f y"
        using True before after split by (auto intro: order_trans less_imp_le)
      moreover have "x # xs = [] @ x # xs" by simp
      ultimately show ?thesis by (metis empty_iff list.set(1))
    next
      case False
      then have "hd (sort_key f (x # xs)) = b" by (simp add: sorted)
      moreover have "x # xs = (x # pre) @ b # post" by (simp add: split)
      moreover have "\<forall>y\<in>set (x # pre). f b < f y" using False before by auto
      ultimately show ?thesis using after by blast
    qed
  qed
qed

lemma case_list_hd:
  "(case xs of [] \<Rightarrow> (None, x) | y # ys \<Rightarrow> (Some y, x)) = ((if xs = [] then None else Some (hd xs)), x)"
  by (cases xs) simp_all

lemma findBestYieldForAsset_hd:
  "fst (findBestYieldForAsset env assetName vaultAddresses chainID x) =
    (let candidates = assetOpportunities assetName (fst (collectOpportunities env chainID vaultAddresses x))
     in if candidates = [] then None else Some (hd (sort_key (\<lambda>opp. - opp_apy opp) candidates)))"
proof -
  obtain opps x1 where c: "collectOpportunities env chainID vaultAddresses x = (opps, x1)"
    by (cases "collectOpportunities env chainID vaultAddresses x")
  have swap: "assetOpportunities assetName (sort_key (\<lambda>opp. - opp_apy opp) opps)
      = sort_key (\<lambda>opp. - opp_apy opp) (assetOpportunities assetName opps)"
    by (simp add: assetOpportunities_def filter_sort)
  have empty: "sort_key (\<lambda>opp. - opp_apy opp) (assetOpportunities assetName opps) = []
      \<longleftrightarrow> assetOpportunities assetName opps = []"
    by (metis length_sort length_0_conv)
  show ?thesis
    by (simp add: findBestYieldForAsset_def getYieldOpportunities_def c case_list_hd swap empty Let_def)
qed

lemma findBestYieldOpportunity_world:
  "snd (findBestYieldOpportunity env assetName x)
     = snd (collectOpportunities env ''hyperevm'' GLUEX_VAULTS x)"
  by (simp add: findBestYieldOpportunity_def findBestYieldForAsset_def getYieldOpportunities_def
        split: prod.splits list.splits)

lemma nothing_found:
  assumes "getUserPositions env u (outside st) = (positions, x1)"
    and "i < length positions" and "pos_active (positions ! i)"
    and "assetOpportunities (pos_asset (positions ! i))
           (fst (collectOpportunities env ''hyperevm'' GLUEX_VAULTS x1)) = []"
  shows "optimizePosition_service env t oc u i st =
           (thrown u i ''No yield opportunities found'',
            st\<lparr>outside := snd (collectOpportunities env ''hyperevm'' GLUEX_VAULTS x1)\<rparr>)"
proof -
  have none: "fst (findBestYieldOpportunity env (pos_asset (positions ! i)) x1) = None"
    using assms(4) by (simp add: findBestYieldOpportunity_def findBestYieldForAsset_hd)
  then have "findBestYieldOpportunity env (pos_asset (positions ! i)) x1
      = (None, snd (collectOpportunities env ''hyperevm'' GLUEX_VAULTS x1))"
    using findBestYieldOpportunity_world [of env "pos_asset (positions ! i)" x1]
    by (metis prod.collapse)
  then have "decide env t u i (outside st)
      = (Inl (thrown u i ''No yield opportunities found''),
         snd (collectOpportunities env ''hyperevm'' GLUEX_VAULTS x1))"
    using assms(1-3) by (simp add: decide_def Let_def)
  then show ?thesis by (simp add: optimizePosition_service_def)
qed

text \<open>
  C4, as the code has it. The opportunities are collected by querying the yield service
  once for every vault of the list, in list order, each query in the outside state the
  queries before it left; a usable reading adds one opportunity with the vault, the
  asset the reading reports and its yield, an unusable reading adds nothing. With a
  non-empty asset name the candidates of \<open>findBestYieldForAsset\<close> are the opportunities
  whose asset equals it up to letter case, with the empty name all of them. With no
  candidate the answer is \<open>null\<close>: there is no second search among all vaults. Otherwise
  the answer is the candidate of highest yield, and among equal yields the one that
  comes first in list order. The service searches the whitelist \<open>GLUEX_VAULTS\<close> with the
  asset of the position, and when an active position has no candidate, its call ends
  with the failure "No yield opportunities found", after the queries of the search.
\<close>

theorem findBestYieldForAsset_selects:
  "fst (collectOpportunities env chainID vaultAddresses x) =
      concat (map (\<lambda>k.
          case getHistoricalAPY env chainID (vaultAddresses ! k)
                 (fold (\<lambda>v y. snd (getHistoricalAPY env chainID v y)) (take k vaultAddresses) x) of
            (r, x1) \<Rightarrow> opportunityOf (vaultAddresses ! k) (dateNow env x1) r)
        [0 ..< length vaultAddresses])
   \<and> (\<forall>vaultAddress now r.
        (unusable r \<longrightarrow> opportunityOf vaultAddress now r = [])
        \<and> (\<not> unusable r \<longrightarrow> opportunityOf vaultAddress now r =
             [\<lparr>opp_vault = vaultAddress,
               opp_asset = orString (data_asset (the (apy_data (the r)))) ''unknown'',
               opp_apy = readAPY (the (apy_data (the r))),
               opp_apr = orNumber (data_currentAPY (the (apy_data (the r))))
                           (readAPY (the (apy_data (the r)))),
               opp_timestamp = now\<rparr>]))
   \<and> (assetName \<noteq> [] \<longrightarrow>
      assetOpportunities assetName (fst (collectOpportunities env chainID vaultAddresses x))
        = filter (\<lambda>opp. toLowerCase (opp_asset opp) = toLowerCase assetName)
            (fst (collectOpportunities env chainID vaultAddresses x)))
   \<and> (assetName = [] \<longrightarrow>
      assetOpportunities assetName (fst (collectOpportunities env chainID vaultAddresses x))
        = fst (collectOpportunities env chainID vaultAddresses x))
   \<and> (assetOpportunities assetName (fst (collectOpportunities env chainID vaultAddresses x)) = []
        \<longrightarrow> fst (findBestYieldForAsset env assetName vaultAddresses chainID x) = None)
   \<and> (assetOpportunities assetName (fst (collectOpportunities env chainID vaultAddresses x)) \<noteq> []
        \<longrightarrow> (\<exists>pre best post.
               assetOpportunities assetName (fst (collectOpportunities env chainID vaultAddresses x))
                 = pre @ best # post
               \<and> (\<forall>opp\<in>set pre. opp_apy opp < opp_apy best)
               \<and> (\<forall>opp\<in>set post. opp_apy opp \<le> opp_apy best)
               \<and> fst (findBestYieldForAsset env assetName vaultAddresses chainID x) = Some best))
   \<and> findBestYieldOpportunity env assetName x
        = findBestYieldForAsset env assetName GLUEX_VAULTS ''hyperevm'' x
   \<and> (\<forall>positions x1.
        getUserPositions env u (outside st) = (positions, x1)
        \<and> i < length positions \<and> pos_active (positions ! i)
        \<and> assetOpportunities (pos_asset (positions ! i))
             (fst (collectOpportunities env ''hyperevm'' GLUEX_VAULTS x1)) = []
        \<longrightarrow> optimizePosition_service env t oc u i st =
             (thrown u i ''No yield opportunities found'',
              st\<lparr>outside := snd (collectOpportunities env ''hyperevm'' GLUEX_VAULTS x1)\<rparr>))"
proof (intro conjI impI allI)
  show "fst (collectOpportunities env chainID vaultAddresses x) =
      concat (map (\<lambda>k.
          case getHistoricalAPY env chainID (vaultAddresses ! k)
                 (fold (\<lambda>v y. snd (getHistoricalAPY env chainID v y)) (take k vaultAddresses) x) of
            (r, x1) \<Rightarrow> opportunityOf (vaultAddresses ! k) (dateNow env x1) r)
        [0 ..< length vaultAddresses])"
    by (rule collectOpportunities_queries)
next
  fix vaultAddress now r
  assume "unusable r"
  then show "opportunityOf vaultAddress now r = []" by (rule opportunityOf_unusable)
next
  fix vaultAddress now r
  assume "\<not> unusable r"
  then show "opportunityOf vaultAddress now r =
             [\<lparr>opp_vault = vaultAddress,
               opp_asset = orString (data_asset (the (apy_data (the r)))) ''unknown'',
               opp_apy = readAPY (the (apy_data (the r))),
               opp_apr = orNumber (data_currentAPY (the (apy_data (the r))))
                           (readAPY (the (apy_data (the r)))),
               opp_timestamp = now\<rparr>]"
    by (rule opportunityOf_usable)
next
  assume "assetName \<noteq> []"
  then show "assetOpportunities assetName (fst (collectOpportunities env chainID vaultAddresses x))
        = filter (\<lambda>opp. toLowerCase (opp_asset opp) = toLowerCase assetName)
            (fst (collectOpportunities env chainID vaultAddresses x))"
    by (simp add: assetOpportunities_def)
next
  assume "assetName = []"
  then show "assetOpportunities assetName (fst (collectOpportunities env chainID vaultAddresses x))
        = fst (collectOpportunities env chainID vaultAddresses x)"
    by (simp add: assetOpportunities_def)
next
  assume "assetOpportunities assetName (fst (collectOpportunities env chainID vaultAddresses x)) = []"
  then show "fst (findBestYieldForAsset env assetName vaultAddresses chainID x) = None"
    by (simp add: findBestYieldForAsset_hd)
next
  let ?c = "assetOpportunities assetName (fst (collectOpportunities env chainID vaultAddresses x))"
  assume ne: "?c \<noteq> []"
  from hd_sort_key_first_least [OF ne, of "\<lambda>opp. - opp_apy opp"]
  obtain pre best post where "?c = pre @ best # post"
    "\<forall>y\<in>set pre. - opp_apy best < - opp_apy y" "\<forall>y\<in>set post. - opp_apy best \<le> - opp_apy y"
    "hd (sort_key (\<lambda>opp. - opp_apy opp) ?c) = best"
    by blast
  moreover have "fst (findBestYieldForAsset env assetName vaultAddresses chainID x)
      = Some (hd (sort_key (\<lambda>opp. - opp_apy opp) ?c))"
    using ne by (simp add: findBestYieldForAsset_hd)
  ultimately show "\<exists>pre best post. ?c = pre @ best # post
               \<and> (\<forall>opp\<in>set pre. opp_apy opp < opp_apy best)
               \<and> (\<forall>opp\<in>set post. opp_apy opp \<le> opp_apy best)
               \<and> fst (findBestYieldForAsset env assetName vaultAddresses chainID x) = Some best"
    by (intro exI [of _ pre] exI [of _ best] exI [of _ post]) simp
next
  show "findBestYieldOpportunity env assetName x
        = findBestYieldForAsset env assetName GLUEX_VAULTS ''hyperevm'' x"
    by (simp add: findBestYieldOpportunity_def)
next
  fix positions x1
  assume "getUserPositions env u (outside st) = (positions, x1)
        \<and> i < length positions \<and> pos_active (positions ! i)
        \<and> assetOpportunities (pos_asset (positions ! i))
             (fst (collectOpportunities env ''hyperevm'' GLUEX_VAULTS x1)) = []"
  then show "optimizePosition_service env t oc u i st =
             (thrown u i ''No yield opportunities found'',
              st\<lparr>outside := snd (collectOpportunities env ''hyperevm'' GLUEX_VAULTS x1)\<rparr>)"
    by (blast intro: nothing_found)
qed

lemma calm_candidates:
  "assetOpportunities ''0xusd'' (fst (collectOpportunities calm ''hyperevm'' GLUEX_VAULTS 1))
     = [offer firstVault 3 2, offer secondVault double_4_2 3]"
  by code_simp

lemma calm_selected:
  "fst (findBestYieldForAsset calm ''0xusd'' GLUEX_VAULTS ''hyperevm'' 1)
     = Some (offer secondVault double_4_2 3)"
  by code_simp

lemma tied_candidates:
  "assetOpportunities [] (fst (collectOpportunities tied ''hyperevm'' GLUEX_VAULTS 0))
     = [offer firstVault 3 1, offer secondVault 3 2]"
  by code_simp

lemma tied_selected:
  "fst (findBestYieldForAsset tied [] GLUEX_VAULTS ''hyperevm'' 0) = Some (offer firstVault 3 1)"
  by code_simp

lemma other_candidates:
  "assetOpportunities ''0xeth'' (fst (collectOpportunities otherAsset ''hyperevm'' GLUEX_VAULTS 1)) = []"
  by code_simp

lemma other_listed:
  "getUserPositions otherAsset ''0xu1'' (outside fresh)
     = ([(inFirst 3)\<lparr>pos_asset := ''0xeth''\<rparr>], 1)
   \<and> 0 < length [(inFirst 3)\<lparr>pos_asset := ''0xeth''\<rparr>]
   \<and> pos_active ([(inFirst 3)\<lparr>pos_asset := ''0xeth''\<rparr>] ! 0)
   \<and> assetOpportunities (pos_asset ([(inFirst 3)\<lparr>pos_asset := ''0xeth''\<rparr>] ! 0))
        (fst (collectOpportunities otherAsset ''hyperevm'' GLUEX_VAULTS 1)) = []"
  by code_simp

lemma other_world: "snd (collectOpportunities otherAsset ''hyperevm'' GLUEX_VAULTS 1) = 6"
  by code_simp

theorem findBestYieldForAsset_selects_witness:
  "(\<exists>pre best post.
       [offer firstVault 3 2, offer secondVault double_4_2 3] = pre @ best # post
       \<and> (\<forall>opp\<in>set pre. opp_apy opp < opp_apy best)
       \<and> (\<forall>opp\<in>set post. opp_apy opp \<le> opp_apy best)
       \<and> fst (findBestYieldForAsset calm ''0xusd'' GLUEX_VAULTS ''hyperevm'' 1) = Some best)
   \<and> fst (findBestYieldForAsset calm ''0xusd'' GLUEX_VAULTS ''hyperevm'' 1)
       = Some (offer secondVault double_4_2 3)
   \<and> (\<exists>pre best post.
       [offer firstVault 3 1, offer secondVault 3 2] = pre @ best # post
       \<and> (\<forall>opp\<in>set pre. opp_apy opp < opp_apy best)
       \<and> (\<forall>opp\<in>set post. opp_apy opp \<le> opp_apy best)
       \<and> fst (findBestYieldForAsset tied [] GLUEX_VAULTS ''hyperevm'' 0) = Some best)
   \<and> fst (findBestYieldForAsset tied [] GLUEX_VAULTS ''hyperevm'' 0) = Some (offer firstVault 3 1)
   \<and> fst (findBestYieldForAsset otherAsset ''0xeth'' GLUEX_VAULTS ''hyperevm'' 1) = None
   \<and> optimizePosition_service otherAsset (1 / 2) ''0xoptimizer'' ''0xu1'' 0 fresh
       = (thrown ''0xu1'' 0 ''No yield opportunities found'', fresh\<lparr>outside := 6\<rparr>)"
proof (intro conjI)
  have ne1: "assetOpportunities ''0xusd'' (fst (collectOpportunities calm ''hyperevm'' GLUEX_VAULTS 1)) \<noteq> []"
    by (simp only: calm_candidates) simp
  from findBestYieldForAsset_selects [of calm "''hyperevm''" GLUEX_VAULTS 1 "''0xusd''",
      THEN conjunct2, THEN conjunct2, THEN conjunct2, THEN conjunct2, THEN conjunct2,
      THEN conjunct1, THEN mp, OF ne1]
  show "\<exists>pre best post.
       [offer firstVault 3 2, offer secondVault double_4_2 3] = pre @ best # post
       \<and> (\<forall>opp\<in>set pre. opp_apy opp < opp_apy best)
       \<and> (\<forall>opp\<in>set post. opp_apy opp \<le> opp_apy best)
       \<and> fst (findBestYieldForAsset calm ''0xusd'' GLUEX_VAULTS ''hyperevm'' 1) = Some best"
    by (simp only: calm_candidates)
  show "fst (findBestYieldForAsset calm ''0xusd'' GLUEX_VAULTS ''hyperevm'' 1)
       = Some (offer secondVault double_4_2 3)"
    by (rule calm_selected)
  have ne2: "assetOpportunities [] (fst (collectOpportunities tied ''hyperevm'' GLUEX_VAULTS 0)) \<noteq> []"
    by (simp only: tied_candidates) simp
  from findBestYieldForAsset_selects [of tied "''hyperevm''" GLUEX_VAULTS 0 "[]",
      THEN conjunct2, THEN conjunct2, THEN conjunct2, THEN conjunct2, THEN conjunct2,
      THEN conjunct1, THEN mp, OF ne2]
  show "\<exists>pre best post.
       [offer firstVault 3 1, offer secondVault 3 2] = pre @ best # post
       \<and> (\<forall>opp\<in>set pre. opp_apy opp < opp_apy best)
       \<and> (\<forall>opp\<in>set post. opp_apy opp \<le> opp_apy best)
       \<and> fst (findBestYieldForAsset tied [] GLUEX_VAULTS ''hyperevm'' 0) = Some best"
    by (simp only: tied_candidates)
  show "fst (findBestYieldForAsset tied [] GLUEX_VAULTS ''hyperevm'' 0) = Some (offer firstVault 3 1)"
    by (rule tied_selected)
  from findBestYieldForAsset_selects [of otherAsset "''hyperevm''" GLUEX_VAULTS 1 "''0xeth''",
      THEN conjunct2, THEN conjunct2, THEN conjunct2, THEN conjunct2,
      THEN conjunct1, THEN mp, OF other_candidates]
  show "fst (findBestYieldForAsset otherAsset ''0xeth'' GLUEX_VAULTS ''hyperevm'' 1) = None" .
  from findBestYieldForAsset_selects [where env = otherAsset and u = "''0xu1''" and i = 0
      and st = fresh and t = "1 / 2" and oc = "''0xoptimizer''",
      THEN conjunct2, THEN conjunct2, THEN conjunct2, THEN conjunct2, THEN conjunct2,
      THEN conjunct2, THEN conjunct2, rule_format, OF other_listed]
  show "optimizePosition_service otherAsset (1 / 2) ''0xoptimizer'' ''0xu1'' 0 fresh
       = (thrown ''0xu1'' 0 ''No yield opportunities found'', fresh\<lparr>outside := 6\<rparr>)"
    by (simp only: other_world)
qed

text \<open>
  The claim as stated fails: the position's asset is \<open>0xeth\<close>, two whitelisted vaults
  offer a yield for \<open>0xusd\<close>. No vault is selected, and the service ends the call with
  "No yield opportunities found".
\<close>

theorem no_fallback_counterexample:
  "map opp_vault (fst (getYieldOpportunities otherAsset GLUEX_VAULTS ''hyperevm'' 1))
     = [secondVault, firstVault]
   \<and> pos_asset (fst (getUserPositions otherAsset ''0xu1'' 0) ! 0) = ''0xeth''
   \<and> fst (findBestYieldOpportunity otherAsset ''0xeth'' 1) = None
   \<and> error (fst (optimizePosition_service otherAsset (1 / 2) ''0xoptimizer'' ''0xu1'' 0 fresh))
       = Some (Thrown ''No yield opportunities found'')"
  by code_simp

subsection \<open>The decision to proceed\<close>

lemma decide_evaluated:
  assumes "getUserPositions env u x = (positions, x1)"
    and "i < length positions" and "pos_active (positions ! i)"
    and "findBestYieldOpportunity env (pos_asset (positions ! i)) x1 = (Some best, x2)"
  shows "fst (decide env t u i x) =
           (if fsub (opp_apy best) (orNumber (pos_apy (positions ! i)) 0) < t
            then Inl (declined u i (positions ! i) (orNumber (pos_apy (positions ! i)) 0) best
                   (BelowThreshold (fsub (opp_apy best) (orNumber (pos_apy (positions ! i)) 0)) t))
            else if toLowerCase (opp_vault best) = toLowerCase (pos_vault (positions ! i))
            then Inl (declined u i (positions ! i) (orNumber (pos_apy (positions ! i)) 0) best
                   AlreadyInBestVault)
            else Inr (positions ! i, orNumber (pos_apy (positions ! i)) 0, best))"
  using assms by (simp add: decide_def Let_def)

text \<open>
  C5, as the code has it. For an active position and a best opportunity of yield b,
  with current yield c and threshold t, the service computes the difference of the two
  doubles as a double, \<open>fsub b c\<close>. Below the threshold it ends the call with "APY
  difference below threshold"; otherwise, if the best vault is the position's vault
  (compared without letter case), with "Already in best vault"; otherwise it goes on to
  build the transaction. So it proceeds exactly when \<open>fsub b c \<ge> t\<close> and the best vault is
  not the position's vault, and the target is then the best opportunity. The witness
  has the example of the claim, a position in a vault at 3 with another vault at 4.2,
  which proceeds to that vault at threshold 0.5 and does not proceed at threshold 2,
  and a position at 0.2 with another vault at 0.7, which does not proceed at threshold
  0.5 because the difference of the doubles is \<open>0.49999999999999994\<close>.
\<close>

theorem decide_proceeds_iff:
  assumes "getUserPositions env u x = (positions, x1)"
    and "i < length positions" and "pos_active (positions ! i)"
    and "findBestYieldOpportunity env (pos_asset (positions ! i)) x1 = (Some best, x2)"
  shows "fst (decide env t u i x) =
           (if fsub (opp_apy best) (orNumber (pos_apy (positions ! i)) 0) < t
            then Inl (declined u i (positions ! i) (orNumber (pos_apy (positions ! i)) 0) best
                   (BelowThreshold (fsub (opp_apy best) (orNumber (pos_apy (positions ! i)) 0)) t))
            else if toLowerCase (opp_vault best) = toLowerCase (pos_vault (positions ! i))
            then Inl (declined u i (positions ! i) (orNumber (pos_apy (positions ! i)) 0) best
                   AlreadyInBestVault)
            else Inr (positions ! i, orNumber (pos_apy (positions ! i)) 0, best))
       \<and> ((\<exists>go. fst (decide env t u i x) = Inr go)
            \<longleftrightarrow> t \<le> fsub (opp_apy best) (orNumber (pos_apy (positions ! i)) 0)
               \<and> toLowerCase (opp_vault best) \<noteq> toLowerCase (pos_vault (positions ! i)))
       \<and> (\<forall>go. fst (decide env t u i x) = Inr go
            \<longrightarrow> go = (positions ! i, orNumber (pos_apy (positions ! i)) 0, best))"
  by (auto simp: decide_evaluated [OF assms])

lemma nearMiss_positions: "getUserPositions nearMiss ''0xu1'' 0 = ([inFirst double_0_2], 1)"
  by code_simp

lemma nearMiss_best:
  "findBestYieldOpportunity nearMiss (pos_asset ([inFirst double_0_2] ! 0)) 1
     = (Some (offer secondVault double_0_7 3), 6)"
  by code_simp

lemma nearMiss_conditions:
  "0 < length [inFirst double_0_2]" "pos_active ([inFirst double_0_2] ! 0)"
  by (simp_all add: inFirst_def)

lemma nearMiss_numbers:
  "fsub (opp_apy (offer secondVault double_0_7 3)) (orNumber (pos_apy ([inFirst double_0_2] ! 0)) 0)
     = 9007199254740991 / 18014398509481984"
  "(9007199254740991 / 18014398509481984 :: rat) < 1 / 2"
  by code_simp+

theorem decide_proceeds_iff_witness:
  "fst (decide calm (1 / 2) ''0xu1'' 0 0)
     = Inr ([inFirst 3] ! 0, orNumber (pos_apy ([inFirst 3] ! 0)) 0, offer secondVault double_4_2 3)
   \<and> \<not> (\<exists>go. fst (decide calm 2 ''0xu1'' 0 0) = Inr go)
   \<and> fst (decide nearMiss (1 / 2) ''0xu1'' 0 0)
       = Inl (declined ''0xu1'' 0 ([inFirst double_0_2] ! 0)
                (orNumber (pos_apy ([inFirst double_0_2] ! 0)) 0) (offer secondVault double_0_7 3)
                (BelowThreshold (9007199254740991 / 18014398509481984) (1 / 2)))"
proof (intro conjI)
  note half = decide_proceeds_iff [OF calm_positions calm_conditions calm_best, of "1 / 2"]
  note two = decide_proceeds_iff [OF calm_positions calm_conditions calm_best, of 2]
  note miss = decide_proceeds_iff [OF nearMiss_positions nearMiss_conditions nearMiss_best, of "1 / 2"]
  from half calm_numbers
  show "fst (decide calm (1 / 2) ''0xu1'' 0 0)
     = Inr ([inFirst 3] ! 0, orNumber (pos_apy ([inFirst 3] ! 0)) 0, offer secondVault double_4_2 3)"
    by blast
  from two calm_numbers
  show "\<not> (\<exists>go. fst (decide calm 2 ''0xu1'' 0 0) = Inr go)"
    by blast
  from miss [THEN conjunct1]
  show "fst (decide nearMiss (1 / 2) ''0xu1'' 0 0)
       = Inl (declined ''0xu1'' 0 ([inFirst double_0_2] ! 0)
                (orNumber (pos_apy ([inFirst double_0_2] ! 0)) 0) (offer secondVault double_0_7 3)
                (BelowThreshold (9007199254740991 / 18014398509481984) (1 / 2)))"
    by (simp only: nearMiss_numbers if_True)
qed

text \<open>
  The claim as stated fails in both directions. The position's own vault reads 3 when
  the position is fetched and 4.2 when the best vault is sought: the difference,
  rounded or exact, reaches the threshold 0.5, and the service does not proceed:
  "Already in best vault". And with a position at 0.1 and another vault at 0.6 the
  difference of the two yields is below the threshold 0.5, yet the service proceeds,
  because the subtraction of the source rounds it up to 0.5.
\<close>

theorem threshold_alone_counterexample:
  "fst (getUserPositions jumpy ''0xu1'' 0) = [inFirst 3]
   \<and> fst (findBestYieldOpportunity jumpy ''0xusd'' 1) = Some (offer firstVault double_4_2 2)
   \<and> (1 / 2 :: rat) \<le> fsub (opp_apy (offer firstVault double_4_2 2)) (orNumber (pos_apy (inFirst 3)) 0)
   \<and> (1 / 2 :: rat) \<le> opp_apy (offer firstVault double_4_2 2) - orNumber (pos_apy (inFirst 3)) 0
   \<and> fst (decide jumpy (1 / 2) ''0xu1'' 0 0)
       = Inl (declined ''0xu1'' 0 (inFirst 3) 3 (offer firstVault double_4_2 2) AlreadyInBestVault)
   \<and> fst (getUserPositions roundedUp ''0xu1'' 0) = [inFirst double_0_1]
   \<and> fst (findBestYieldOpportunity roundedUp ''0xusd'' 1) = Some (offer secondVault double_0_6 3)
   \<and> opp_apy (offer secondVault double_0_6 3) - orNumber (pos_apy (inFirst double_0_1)) 0 < 1 / 2
   \<and> fst (decide roundedUp (1 / 2) ''0xu1'' 0 0)
       = Inr (inFirst double_0_1, double_0_1, offer secondVault double_0_6 3)"
  by code_simp

subsection \<open>Never into the current vault\<close>

lemma decide_same_vault:
  assumes "i < length (fst (getUserPositions env u x))"
    and "findBestYieldOpportunity env (pos_asset (fst (getUserPositions env u x) ! i))
           (snd (getUserPositions env u x)) = (Some best, x2)"
    and "toLowerCase (opp_vault best) = toLowerCase (pos_vault (fst (getUserPositions env u x) ! i))"
  shows "\<exists>r x'. decide env t u i x = (Inl r, x')"
  using assms
  by (cases "getUserPositions env u x") (auto simp: decide_def Let_def)

lemma same_vault_declines:
  assumes run: "optimizePosition_service env t oc u i st = (result, st')"
    and h: "i < length (fst (getUserPositions env u (outside st)))
            \<and> findBestYieldOpportunity env (pos_asset (fst (getUserPositions env u (outside st)) ! i))
                 (snd (getUserPositions env u (outside st))) = (Some best, x2)
            \<and> toLowerCase (opp_vault best)
                 = toLowerCase (pos_vault (fst (getUserPositions env u (outside st)) ! i))"
  shows "\<not> success result \<and> optimizeCalls st' = optimizeCalls st
              \<and> optimizations st' = optimizations st"
proof -
  from h obtain r x' where d: "decide env t u i (outside st) = (Inl r, x')"
    using decide_same_vault [of i env u "outside st" best x2 t] by blast
  with optimizePosition_service_cases [OF run]
  have "result = r" and "st' = st\<lparr>outside := x'\<rparr>" by auto
  with decide_Inl [OF d] show ?thesis by simp
qed

lemma new_call_target:
  assumes run: "optimizePosition_service env t oc u i st = (result, st')"
    and c: "call \<in> set (drop (length (optimizeCalls st)) (optimizeCalls st'))"
  shows "tx_minSharesOut (snd call) = 0
     \<and> toLowerCase (tx_targetVault (snd call))
              \<noteq> toLowerCase (pos_vault (fst (getUserPositions env u (outside st)) ! i))"
proof -
  from optimizePosition_service_effect [OF run]
  have "optimizeCalls st' = optimizeCalls st
         \<or> (\<exists>cur c best x2 params x3.
              decide env t u i (outside st) = (Inr (cur, c, best), x2)
              \<and> buildParams env oc cur best x2 = (Inr params, x3)
              \<and> optimizeCalls st' = optimizeCalls st @ [(i, params)])"
    by blast
  then show ?thesis
  proof (elim disjE exE conjE)
    assume "optimizeCalls st' = optimizeCalls st"
    with c show ?thesis by simp
  next
    fix cur c' best x2 params x3
    assume d: "decide env t u i (outside st) = (Inr (cur, c', best), x2)"
      and b: "buildParams env oc cur best x2 = (Inr params, x3)"
      and l: "optimizeCalls st' = optimizeCalls st @ [(i, params)]"
    from c l have "call = (i, params)" by simp
    with decide_Inr [OF d] buildParams_Inr [OF b] show ?thesis by auto
  qed
qed

lemma success_moves:
  assumes run: "optimizePosition_service env t oc u i st = (result, st')"
    and s: "success result"
  shows "toLowerCase (toVault result) \<noteq> toLowerCase (fromVault result)"
proof -
  from optimizePosition_service_effect [OF run] s
  obtain cur c best x2 where
    d: "decide env t u i (outside st) = (Inr (cur, c, best), x2)"
    and r: "fromVault result = pos_vault cur" "toVault result = opp_vault best"
    by blast
  with decide_Inr [OF d] show ?thesis by auto
qed

text \<open>
  C6. If the best opportunity's vault is the position's current vault, then whatever
  the threshold and the yields, the call reports no success, hands no transaction to
  the wallet and writes no record. Every \<open>optimizePosition\<close> transaction the call hands to
  the wallet has a target vault other than the position's current vault, and a
  successful result names a \<open>toVault\<close> other than its \<open>fromVault\<close>.
\<close>

theorem never_targets_current_vault:
  assumes run: "optimizePosition_service env t oc u i st = (result, st')"
  shows "(\<forall>best x2.
            i < length (fst (getUserPositions env u (outside st)))
            \<and> findBestYieldOpportunity env (pos_asset (fst (getUserPositions env u (outside st)) ! i))
                 (snd (getUserPositions env u (outside st))) = (Some best, x2)
            \<and> toLowerCase (opp_vault best)
                 = toLowerCase (pos_vault (fst (getUserPositions env u (outside st)) ! i))
          \<longrightarrow> \<not> success result \<and> optimizeCalls st' = optimizeCalls st
              \<and> optimizations st' = optimizations st)
     \<and> (\<forall>call\<in>set (drop (length (optimizeCalls st)) (optimizeCalls st')).
            toLowerCase (tx_targetVault (snd call))
              \<noteq> toLowerCase (pos_vault (fst (getUserPositions env u (outside st)) ! i)))
     \<and> (success result \<longrightarrow> toLowerCase (toVault result) \<noteq> toLowerCase (fromVault result))"
  apply (rule conjI)
   apply (intro allI impI, erule same_vault_declines [OF run])
  apply (rule conjI)
   apply (rule ballI, erule new_call_target [OF run, THEN conjunct2])
  apply (rule impI, erule success_moves [OF run])
  done

lemma jumpy_same_vault:
  "0 < length (fst (getUserPositions jumpy ''0xu1'' (outside fresh)))
   \<and> findBestYieldOpportunity jumpy (pos_asset (fst (getUserPositions jumpy ''0xu1'' (outside fresh)) ! 0))
        (snd (getUserPositions jumpy ''0xu1'' (outside fresh))) = (Some (offer firstVault double_4_2 2), 6)
   \<and> toLowerCase (opp_vault (offer firstVault double_4_2 2))
        = toLowerCase (pos_vault (fst (getUserPositions jumpy ''0xu1'' (outside fresh)) ! 0))"
  by code_simp

theorem never_targets_current_vault_witness:
  "(\<not> success (fst (optimizePosition_service jumpy (1 / 2) ''0xoptimizer'' ''0xu1'' 0 fresh))
    \<and> optimizeCalls (snd (optimizePosition_service jumpy (1 / 2) ''0xoptimizer'' ''0xu1'' 0 fresh))
        = optimizeCalls fresh
    \<and> optimizations (snd (optimizePosition_service jumpy (1 / 2) ''0xoptimizer'' ''0xu1'' 0 fresh))
        = optimizations fresh)
   \<and> toLowerCase secondVault
       \<noteq> toLowerCase (pos_vault (fst (getUserPositions calm ''0xu1'' (outside fresh)) ! 0))
   \<and> toLowerCase (toVault (fst (optimizePosition_service calm (1 / 2) ''0xoptimizer'' ''0xu1'' 0 fresh)))
       \<noteq> toLowerCase (fromVault (fst (optimizePosition_service calm (1 / 2) ''0xoptimizer'' ''0xu1'' 0 fresh)))"
proof (intro conjI)
  note declinedRun = never_targets_current_vault
    [where env = jumpy and t = "1 / 2" and oc = "''0xoptimizer''" and u = "''0xu1''" and i = 0
       and st = fresh, OF surjective_pairing]
  note movedRun = never_targets_current_vault
    [where env = calm and t = "1 / 2" and oc = "''0xoptimizer''" and u = "''0xu1''" and i = 0
       and st = fresh, OF surjective_pairing]
  from declinedRun [THEN conjunct1, rule_format, OF jumpy_same_vault]
  show "\<not> success (fst (optimizePosition_service jumpy (1 / 2) ''0xoptimizer'' ''0xu1'' 0 fresh))"
    and "optimizeCalls (snd (optimizePosition_service jumpy (1 / 2) ''0xoptimizer'' ''0xu1'' 0 fresh))
        = optimizeCalls fresh"
    and "optimizations (snd (optimizePosition_service jumpy (1 / 2) ''0xoptimizer'' ''0xu1'' 0 fresh))
        = optimizations fresh"
    by blast+
  from movedRun [THEN conjunct2, THEN conjunct1]
  show "toLowerCase secondVault
       \<noteq> toLowerCase (pos_vault (fst (getUserPositions calm ''0xu1'' (outside fresh)) ! 0))"
    by (simp add: calm_call)
  from movedRun [THEN conjunct2, THEN conjunct2] calm_success
  show "toLowerCase (toVault (fst (optimizePosition_service calm (1 / 2) ''0xoptimizer'' ''0xu1'' 0 fresh)))
       \<noteq> toLowerCase (fromVault (fst (optimizePosition_service calm (1 / 2) ''0xoptimizer'' ''0xu1'' 0 fresh)))"
    by blast
qed

subsection \<open>Records of optimizations\<close>

lemma optimizePosition_service_appends:
  "\<exists>new. optimizations (snd (optimizePosition_service env t oc u i st)) = optimizations st @ new"
  using optimizePosition_service_effect [OF surjective_pairing, of env t oc u i st]
  by (metis append_Nil2)

lemma optimizeListed_appends:
  "\<exists>new. optimizations (snd (optimizeListed env t oc u positions st)) = optimizations st @ new"
proof (induction positions arbitrary: st)
  case Nil
  then show ?case by simp
next
  case (Cons position rest)
  show ?case
  proof (cases "pos_active position")
    case False
    then show ?thesis using Cons.IH [of st] by simp
  next
    case True
    obtain result st1 where
      one: "optimizePosition_service env t oc u (pos_positionIndex position) st = (result, st1)"
      by (cases "optimizePosition_service env t oc u (pos_positionIndex position) st")
    obtain results st2 where
      others: "optimizeListed env t oc u rest st1 = (results, st2)"
      by (cases "optimizeListed env t oc u rest st1")
    from optimizePosition_service_appends [of env t oc u "pos_positionIndex position" st] one
    obtain new1 where "optimizations st1 = optimizations st @ new1" by auto
    moreover from Cons.IH [of st1] others
    obtain new2 where "optimizations st2 = optimizations st1 @ new2" by auto
    ultimately have "optimizations st2 = optimizations st @ (new1 @ new2)" by simp
    then show ?thesis using True by (auto simp: one others)
  qed
qed

lemma optimizeUser_appends:
  "\<exists>new. optimizations (snd (optimizeUser env t oc u st)) = optimizations st @ new"
proof -
  obtain positions x1 where g: "getUserPositions env u (outside st) = (positions, x1)"
    by (cases "getUserPositions env u (outside st)")
  show ?thesis
    using optimizeListed_appends [of env t oc u positions "st\<lparr>outside := x1\<rparr>"]
    by (simp add: optimizeUser_def g)
qed

lemma optimizeUsers_appends:
  "\<exists>new. optimizations (snd (optimizeUsers env t oc users st)) = optimizations st @ new"
proof (induction users arbitrary: st)
  case Nil
  then show ?case by simp
next
  case (Cons u users)
  obtain results st1 where one: "optimizeUser env t oc u st = (results, st1)"
    by (cases "optimizeUser env t oc u st")
  obtain others st2 where rest: "optimizeUsers env t oc users st1 = (others, st2)"
    by (cases "optimizeUsers env t oc users st1")
  from optimizeUser_appends [of env t oc u st] one
  obtain new1 where "optimizations st1 = optimizations st @ new1" by auto
  moreover from Cons.IH [of st1] rest
  obtain new2 where "optimizations st2 = optimizations st1 @ new2" by auto
  ultimately have "optimizations st2 = optimizations st @ (new1 @ new2)" by simp
  then show ?case by (auto simp: one rest)
qed

lemma optimizeAllPositions_appends:
  "\<exists>new. optimizations (snd (optimizeAllPositions env t oc st)) = optimizations st @ new"
proof -
  obtain users x1 where g: "getUsersWithYieldPositions env (outside st) = (users, x1)"
    by (cases "getUsersWithYieldPositions env (outside st)")
  show ?thesis
    using optimizeUsers_appends [of env t oc users "st\<lparr>outside := x1\<rparr>"]
    by (simp add: optimizeAllPositions_def g)
qed

lemma record_needs_receipt:
  assumes run: "optimizePosition_service env t oc u i st = (result, st')"
    and changed: "optimizations st' \<noteq> optimizations st"
  shows "\<exists>params x3 txhash x4 x5.
             optimizeCalls st' = optimizeCalls st @ [(i, params)]
             \<and> writeContract env i params x3 = (Inr txhash, x4)
             \<and> waitForTransactionReceipt env txhash x4 = (Inr True, x5)
             \<and> transactionHash result = Some txhash"
  using optimizePosition_service_effect [OF run] changed by blast

lemma confirmAndRecord_iff:
  "(success (fst (confirmAndRecord env u i cur c best txhash s))
            \<longleftrightarrow> (\<exists>x1. waitForTransactionReceipt env txhash (outside s) = (Inr True, x1)
                   \<and> fst (storeSave env
                           (lowered (optimizationDoc u i cur c best txhash (dateNow env x1))) x1)
                       = Inr ()))
          \<and> (success (fst (confirmAndRecord env u i cur c best txhash s))
            \<longleftrightarrow> optimizations (snd (confirmAndRecord env u i cur c best txhash s))
                   \<noteq> optimizations s)"
proof -
  obtain r s' where cr: "confirmAndRecord env u i cur c best txhash s = (r, s')"
    by (cases "confirmAndRecord env u i cur c best txhash s")
  from confirmAndRecord_cases [OF cr] show ?thesis
    unfolding cr fst_conv snd_conv
  proof (elim conjE disjE exE)
    fix x1
    assume "waitForTransactionReceipt env txhash (outside s) = (Inr True, x1)"
      "fst (storeSave env (lowered (optimizationDoc u i cur c best txhash (dateNow env x1))) x1) = Inr ()"
      "r = optimized u i cur c best txhash"
      "optimizations s' = optimizations s
          @ [lowered (optimizationDoc u i cur c best txhash (dateNow env x1))]"
    then show "(success r
            \<longleftrightarrow> (\<exists>x1. waitForTransactionReceipt env txhash (outside s) = (Inr True, x1)
                   \<and> fst (storeSave env
                           (lowered (optimizationDoc u i cur c best txhash (dateNow env x1))) x1)
                       = Inr ()))
          \<and> (success r \<longleftrightarrow> optimizations s' \<noteq> optimizations s)"
      by auto
  next
    fix msg
    assume "\<forall>x1. waitForTransactionReceipt env txhash (outside s) = (Inr True, x1)
               \<longrightarrow> fst (storeSave env (lowered (optimizationDoc u i cur c best txhash
                           (dateNow env x1))) x1) \<noteq> Inr ()"
      "r = thrown u i msg" "optimizations s' = optimizations s"
    then show "(success r
            \<longleftrightarrow> (\<exists>x1. waitForTransactionReceipt env txhash (outside s) = (Inr True, x1)
                   \<and> fst (storeSave env
                           (lowered (optimizationDoc u i cur c best txhash (dateNow env x1))) x1)
                       = Inr ()))
          \<and> (success r \<longleftrightarrow> optimizations s' \<noteq> optimizations s)"
      by auto
  qed
qed

text \<open>
  C7, as the code has it. One call of the service leaves the collection of records as
  it was or appends one record to it, and never changes a record already there. A
  record is appended exactly when the call reports success; it is appended only after
  a transaction was handed to the wallet and its receipt reported success. Once the
  transaction is submitted, the record is written exactly when the receipt reports
  success and the store accepts the write: a failed write is one more failure result
  without a record. A whole run of the batch driver keeps every record that was there
  and only appends.
\<close>

theorem record_follows_confirmation:
  assumes run: "optimizePosition_service env t oc u i st = (result, st')"
  shows "(optimizations st' = optimizations st
           \<or> (\<exists>doc. optimizations st' = optimizations st @ [doc]))
     \<and> (success result \<longleftrightarrow> optimizations st' \<noteq> optimizations st)
     \<and> (optimizations st' \<noteq> optimizations st \<longrightarrow>
          (\<exists>params x3 txhash x4 x5.
             optimizeCalls st' = optimizeCalls st @ [(i, params)]
             \<and> writeContract env i params x3 = (Inr txhash, x4)
             \<and> waitForTransactionReceipt env txhash x4 = (Inr True, x5)
             \<and> transactionHash result = Some txhash))
     \<and> (\<forall>cur c best txhash s.
          (success (fst (confirmAndRecord env u i cur c best txhash s))
            \<longleftrightarrow> (\<exists>x1. waitForTransactionReceipt env txhash (outside s) = (Inr True, x1)
                   \<and> fst (storeSave env
                           (lowered (optimizationDoc u i cur c best txhash (dateNow env x1))) x1)
                       = Inr ()))
          \<and> (success (fst (confirmAndRecord env u i cur c best txhash s))
            \<longleftrightarrow> optimizations (snd (confirmAndRecord env u i cur c best txhash s))
                   \<noteq> optimizations s))
     \<and> (\<exists>new. optimizations (snd (optimizeAllPositions env t oc st)) = optimizations st @ new)"
proof (intro conjI)
  note effect = optimizePosition_service_effect [OF run]
  show "\<exists>new. optimizations (snd (optimizeAllPositions env t oc st)) = optimizations st @ new"
    by (rule optimizeAllPositions_appends)
  show "optimizations st' = optimizations st
           \<or> (\<exists>doc. optimizations st' = optimizations st @ [doc])"
    using effect by blast
  show "success result \<longleftrightarrow> optimizations st' \<noteq> optimizations st"
    using effect by auto
  show "optimizations st' \<noteq> optimizations st \<longrightarrow>
          (\<exists>params x3 txhash x4 x5.
             optimizeCalls st' = optimizeCalls st @ [(i, params)]
             \<and> writeContract env i params x3 = (Inr txhash, x4)
             \<and> waitForTransactionReceipt env txhash x4 = (Inr True, x5)
             \<and> transactionHash result = Some txhash)"
    using record_needs_receipt [OF run] by blast
  show "\<forall>cur c best txhash s.
          (success (fst (confirmAndRecord env u i cur c best txhash s))
            \<longleftrightarrow> (\<exists>x1. waitForTransactionReceipt env txhash (outside s) = (Inr True, x1)
                   \<and> fst (storeSave env
                           (lowered (optimizationDoc u i cur c best txhash (dateNow env x1))) x1)
                       = Inr ()))
          \<and> (success (fst (confirmAndRecord env u i cur c best txhash s))
            \<longleftrightarrow> optimizations (snd (confirmAndRecord env u i cur c best txhash s))
                   \<noteq> optimizations s)"
    by (intro allI confirmAndRecord_iff)
qed

lemma calm_recorded:
  "optimizations (snd (optimizePosition_service calm (1 / 2) ''0xoptimizer'' ''0xu1'' 0 fresh))
     \<noteq> optimizations fresh"
  by code_simp

lemma calm_tail:
  "waitForTransactionReceipt calm ''0xhash'' (outside fresh) = (Inr True, 0)
   \<and> fst (storeSave calm (lowered (optimizationDoc ''0xu1'' 0 (inFirst 3) 3
              (offer secondVault double_4_2 3) ''0xhash'' (dateNow calm 0))) 0) = Inr ()"
  by code_simp

theorem record_follows_confirmation_witness:
  "success (fst (optimizePosition_service calm (1 / 2) ''0xoptimizer'' ''0xu1'' 0 fresh))
   \<and> (\<exists>params x3 txhash x4 x5.
         optimizeCalls (snd (optimizePosition_service calm (1 / 2) ''0xoptimizer'' ''0xu1'' 0 fresh))
           = optimizeCalls fresh @ [(0, params)]
         \<and> writeContract calm 0 params x3 = (Inr txhash, x4)
         \<and> waitForTransactionReceipt calm txhash x4 = (Inr True, x5)
         \<and> transactionHash (fst (optimizePosition_service calm (1 / 2) ''0xoptimizer'' ''0xu1'' 0 fresh))
             = Some txhash)
   \<and> success (fst (confirmAndRecord calm ''0xu1'' 0 (inFirst 3) 3 (offer secondVault double_4_2 3)
         ''0xhash'' fresh))
   \<and> optimizations (snd (confirmAndRecord calm ''0xu1'' 0 (inFirst 3) 3 (offer secondVault double_4_2 3)
         ''0xhash'' fresh)) \<noteq> optimizations fresh"
proof -
  note main = record_follows_confirmation
    [where env = calm and t = "1 / 2" and oc = "''0xoptimizer''" and u = "''0xu1''" and i = 0
       and st = fresh, OF surjective_pairing]
  from main calm_recorded
  have a: "success (fst (optimizePosition_service calm (1 / 2) ''0xoptimizer'' ''0xu1'' 0 fresh))"
    by blast
  from main [THEN conjunct2, THEN conjunct2, THEN conjunct1, THEN mp, OF calm_recorded]
  have b: "\<exists>params x3 txhash x4 x5.
         optimizeCalls (snd (optimizePosition_service calm (1 / 2) ''0xoptimizer'' ''0xu1'' 0 fresh))
           = optimizeCalls fresh @ [(0, params)]
         \<and> writeContract calm 0 params x3 = (Inr txhash, x4)
         \<and> waitForTransactionReceipt calm txhash x4 = (Inr True, x5)
         \<and> transactionHash (fst (optimizePosition_service calm (1 / 2) ''0xoptimizer'' ''0xu1'' 0 fresh))
             = Some txhash" .
  from main [THEN conjunct2, THEN conjunct2, THEN conjunct2, THEN conjunct1, rule_format,
      of "inFirst 3" 3 "offer secondVault double_4_2 3" "''0xhash''" fresh] calm_tail
  have c: "success (fst (confirmAndRecord calm ''0xu1'' 0 (inFirst 3) 3 (offer secondVault double_4_2 3)
         ''0xhash'' fresh))
     \<and> optimizations (snd (confirmAndRecord calm ''0xu1'' 0 (inFirst 3) 3 (offer secondVault double_4_2 3)
         ''0xhash'' fresh)) \<noteq> optimizations fresh"
    by blast
  from a b c show ?thesis by blast
qed

text \<open>
  The claim as stated fails: the transaction is submitted and its receipt reports
  success, the store rejects the write. No record is persisted and the call reports a
  failure.
\<close>

theorem confirmed_but_unrecorded_counterexample:
  "optimizeCalls (snd (optimizePosition_service storeDown (1 / 2) ''0xoptimizer'' ''0xu1'' 0 fresh))
     = [(0, \<lparr>tx_routers = [], tx_calldatas = [], tx_inputTokens = [], tx_outputTokens = [],
             tx_inputAmounts = [], tx_targetVault = secondVault, tx_minSharesOut = 0\<rparr>)]
   \<and> writeContract storeDown 0
        \<lparr>tx_routers = [], tx_calldatas = [], tx_inputTokens = [], tx_outputTokens = [],
         tx_inputAmounts = [], tx_targetVault = secondVault, tx_minSharesOut = 0\<rparr> 6
       = (Inr ''0xhash'', 6)
   \<and> waitForTransactionReceipt storeDown ''0xhash'' 6 = (Inr True, 6)
   \<and> optimizations (snd (optimizePosition_service storeDown (1 / 2) ''0xoptimizer'' ''0xu1'' 0 fresh)) = []
   \<and> \<not> success (fst (optimizePosition_service storeDown (1 / 2) ''0xoptimizer'' ''0xu1'' 0 fresh))
   \<and> error (fst (optimizePosition_service storeDown (1 / 2) ''0xoptimizer'' ''0xu1'' 0 fresh))
       = Some (Thrown ''store unavailable'')"
  by code_simp

subsection \<open>Failures that do not stop the others\<close>

lemma optimizePosition_service_user:
  "res_userAddress (fst (optimizePosition_service env t oc userAddress positionIndex st)) = userAddress"
  using optimizePosition_service_effect [OF surjective_pairing] by blast

lemma optimizeListed_outcomes:
  "length (fst (optimizeListed env t oc userAddress positions st)) = length (filter pos_active positions)
   \<and> (\<forall>r\<in>set (fst (optimizeListed env t oc userAddress positions st)). res_userAddress r = userAddress)"
proof (induction positions arbitrary: st)
  case Nil
  then show ?case by simp
next
  case (Cons position rest)
  show ?case
  proof (cases "pos_active position")
    case False
    then show ?thesis using Cons.IH [of st] by simp
  next
    case True
    obtain result st1 where
      one: "optimizePosition_service env t oc userAddress (pos_positionIndex position) st = (result, st1)"
      by (cases "optimizePosition_service env t oc userAddress (pos_positionIndex position) st")
    obtain results st2 where
      others: "optimizeListed env t oc userAddress rest st1 = (results, st2)"
      by (cases "optimizeListed env t oc userAddress rest st1")
    have "res_userAddress result = userAddress"
      using optimizePosition_service_user [of env t oc userAddress "pos_positionIndex position" st]
      by (simp add: one)
    then show ?thesis
      using True Cons.IH [of st1] by (simp add: one others)
  qed
qed

lemma optimizeUsers_append:
  "optimizeUsers env t oc (before @ after) st =
    (case optimizeUsers env t oc before st of
       (r1, st1) \<Rightarrow> (case optimizeUsers env t oc after st1 of (r2, st2) \<Rightarrow> (r1 @ r2, st2)))"
  by (induction before arbitrary: st) (auto split: prod.splits)

lemma optimizeUsers_around:
  "optimizeUsers env t oc (before @ userAddress # after) st =
    (case optimizeUsers env t oc before st of
       (r1, st1) \<Rightarrow>
         (case optimizeUser env t oc userAddress st1 of
            (r2, st2) \<Rightarrow>
              (case optimizeUsers env t oc after st2 of (r3, st3) \<Rightarrow> (r1 @ r2 @ r3, st3))))"
  by (simp add: optimizeUsers_append split: prod.splits)

lemma optimizeUser_outcomes:
  "length (fst (optimizeUser env t oc userAddress st))
     = length (filter pos_active (fst (getUserPositions env userAddress (outside st))))
   \<and> (\<forall>r\<in>set (fst (optimizeUser env t oc userAddress st)). res_userAddress r = userAddress)"
proof -
  obtain positions x1 where g: "getUserPositions env userAddress (outside st) = (positions, x1)"
    by (cases "getUserPositions env userAddress (outside st)")
  show ?thesis
    using optimizeListed_outcomes [of env t oc userAddress positions "st\<lparr>outside := x1\<rparr>"]
    by (simp add: optimizeUser_def g)
qed

text \<open>
  C8. A vault whose reading is unusable adds nothing, and the vaults after it are still
  queried: the opportunities for a list of vaults are those of the vaults before it and
  those of the vaults after it, sorted. The batch driver handles a user between two
  groups of users by handling the first group, then the user, then the second group,
  and joins their results; each user contributes one result per active position listed
  for it, whatever the yield service answered. The witness has three users and no
  reading at all while the second is handled: the first and third are optimized, the
  second gets the result "No yield opportunities found".
\<close>

theorem failures_do_not_abort:
  "(\<forall>pre vaultAddress post a x1 r x2 b x3.
       collectOpportunities env chainID pre x = (a, x1)
       \<and> getHistoricalAPY env chainID vaultAddress x1 = (r, x2)
       \<and> unusable r
       \<and> collectOpportunities env chainID post x2 = (b, x3)
     \<longrightarrow> getYieldOpportunities env (pre @ vaultAddress # post) chainID x
          = (sort_key (\<lambda>opp. - opp_apy opp) (a @ b), x3))
   \<and> (\<forall>before userAddress after.
        optimizeUsers env t oc (before @ userAddress # after) st =
          (case optimizeUsers env t oc before st of
             (r1, st1) \<Rightarrow>
               (case optimizeUser env t oc userAddress st1 of
                  (r2, st2) \<Rightarrow>
                    (case optimizeUsers env t oc after st2 of (r3, st3) \<Rightarrow> (r1 @ r2 @ r3, st3)))))
   \<and> (\<forall>userAddress s.
        length (fst (optimizeUser env t oc userAddress s))
          = length (filter pos_active (fst (getUserPositions env userAddress (outside s))))
        \<and> (\<forall>r\<in>set (fst (optimizeUser env t oc userAddress s)). res_userAddress r = userAddress))"
  apply (intro conjI allI impI)
     apply (elim conjE, erule (3) getYieldOpportunities_skips)
    apply (rule optimizeUsers_around)
   apply (rule optimizeUser_outcomes [THEN conjunct1])
  apply (rule optimizeUser_outcomes [THEN conjunct2])
  done

lemma calm_skip:
  "collectOpportunities calm ''hyperevm'' [firstVault, secondVault] 0
      = ([offer firstVault 3 1, offer secondVault double_4_2 2], 2)
   \<and> getHistoricalAPY calm ''hyperevm'' thirdVault 2 = (answer thirdVault None, 3)
   \<and> unusable (answer thirdVault None)
   \<and> collectOpportunities calm ''hyperevm'' lastVaults 3 = ([], 5)"
  by code_simp

lemma patchy_batch:
  "map success (fst (optimizeAllPositions patchy (1 / 2) ''0xoptimizer'' fresh)) = [True, False, True]
   \<and> map res_userAddress (fst (optimizeAllPositions patchy (1 / 2) ''0xoptimizer'' fresh)) = users3
   \<and> map error (fst (optimizeAllPositions patchy (1 / 2) ''0xoptimizer'' fresh))
       = [None, Some (Thrown ''No yield opportunities found''), None]"
  by code_simp

lemma patchy_second:
  "filter pos_active (fst (getUserPositions patchy ''0xu2''
      (outside (snd (optimizeUsers patchy (1 / 2) ''0xoptimizer'' [''0xu1''] fresh)))))
    = [\<lparr>pos_userAddress = ''0xu2'', pos_positionIndex = 0, pos_vault = firstVault,
        pos_asset = ''0xusd'', pos_shares = 100, pos_assets = 100, pos_apy = Some 0,
        pos_active = True\<rparr>]"
  by code_simp

theorem failures_do_not_abort_witness:
  "getYieldOpportunities calm ([firstVault, secondVault] @ thirdVault # lastVaults) ''hyperevm'' 0
      = (sort_key (\<lambda>opp. - opp_apy opp)
           ([offer firstVault 3 1, offer secondVault double_4_2 2] @ []), 5)
   \<and> optimizeUsers patchy (1 / 2) ''0xoptimizer'' ([''0xu1''] @ ''0xu2'' # [''0xu3'']) fresh =
        (case optimizeUsers patchy (1 / 2) ''0xoptimizer'' [''0xu1''] fresh of
           (r1, st1) \<Rightarrow>
             (case optimizeUser patchy (1 / 2) ''0xoptimizer'' ''0xu2'' st1 of
                (r2, st2) \<Rightarrow>
                  (case optimizeUsers patchy (1 / 2) ''0xoptimizer'' [''0xu3''] st2 of
                     (r3, st3) \<Rightarrow> (r1 @ r2 @ r3, st3))))
   \<and> length (fst (optimizeUser patchy (1 / 2) ''0xoptimizer'' ''0xu2''
         (snd (optimizeUsers patchy (1 / 2) ''0xoptimizer'' [''0xu1''] fresh)))) = 1
   \<and> map success (fst (optimizeAllPositions patchy (1 / 2) ''0xoptimizer'' fresh)) = [True, False, True]
   \<and> map res_userAddress (fst (optimizeAllPositions patchy (1 / 2) ''0xoptimizer'' fresh)) = users3"
proof (intro conjI)
  from failures_do_not_abort [where env = calm and chainID = "''hyperevm''" and x = 0,
      THEN conjunct1, rule_format,
      of "[firstVault, secondVault]" "[offer firstVault 3 1, offer secondVault double_4_2 2]" 2
         thirdVault "answer thirdVault None" 3 lastVaults "[]" 5, OF calm_skip]
  show "getYieldOpportunities calm ([firstVault, secondVault] @ thirdVault # lastVaults) ''hyperevm'' 0
      = (sort_key (\<lambda>opp. - opp_apy opp)
           ([offer firstVault 3 1, offer secondVault double_4_2 2] @ []), 5)" .
  note batch = failures_do_not_abort [where env = patchy and t = "1 / 2" and oc = "''0xoptimizer''"
      and st = fresh, THEN conjunct2]
  from batch [THEN conjunct1, rule_format, of "[''0xu1'']" "''0xu2''" "[''0xu3'']"]
  show "optimizeUsers patchy (1 / 2) ''0xoptimizer'' ([''0xu1''] @ ''0xu2'' # [''0xu3'']) fresh =
        (case optimizeUsers patchy (1 / 2) ''0xoptimizer'' [''0xu1''] fresh of
           (r1, st1) \<Rightarrow>
             (case optimizeUser patchy (1 / 2) ''0xoptimizer'' ''0xu2'' st1 of
                (r2, st2) \<Rightarrow>
                  (case optimizeUsers patchy (1 / 2) ''0xoptimizer'' [''0xu3''] st2 of
                     (r3, st3) \<Rightarrow> (r1 @ r2 @ r3, st3))))" .
  from batch [THEN conjunct2, rule_format, THEN conjunct1,
      of "''0xu2''" "snd (optimizeUsers patchy (1 / 2) ''0xoptimizer'' [''0xu1''] fresh)"]
  show "length (fst (optimizeUser patchy (1 / 2) ''0xoptimizer'' ''0xu2''
         (snd (optimizeUsers patchy (1 / 2) ''0xoptimizer'' [''0xu1''] fresh)))) = 1"
    by (simp only: patchy_second) simp
  show "map success (fst (optimizeAllPositions patchy (1 / 2) ''0xoptimizer'' fresh)) = [True, False, True]"
    using patchy_batch by blast
  show "map res_userAddress (fst (optimizeAllPositions patchy (1 / 2) ''0xoptimizer'' fresh)) = users3"
    using patchy_batch by blast
qed

subsection \<open>No slippage floor from the service\<close>

lemma executeSwaps_errors:
  "executeSwaps ext wl p is w = Inl e \<Longrightarrow> e \<noteq> Require ''Insufficient shares''"
  by (induction "is" arbitrary: w) (auto split: if_splits option.splits prod.splits)

lemma swapPhase_errors:
  "swapPhase ext wl p w = Inl e \<Longrightarrow> e \<noteq> Require ''Insufficient shares''"
  by (auto simp: swapPhase_def split: if_splits dest: executeSwaps_errors)

lemma zero_floor_never_binds:
  assumes "minSharesOut p = 0"
  shows "optimizePosition ext sender idx p s \<noteq> Inl (Require ''Insufficient shares'')"
  using assms
  by (auto simp: optimizePosition_def Let_def
        split: if_splits option.splits prod.splits sum.splits dest: swapPhase_errors)

text \<open>
  C10. Every \<open>optimizePosition\<close> transaction the service hands to the wallet carries
  \<open>minSharesOut = 0\<close>, and an on-chain call with that value never fails the check
  \<open>newShares \<ge> minSharesOut\<close>: it never reverts with "Insufficient shares".
\<close>

theorem service_sets_no_slippage_floor:
  assumes run: "optimizePosition_service env t oc u i st = (result, st')"
  shows "\<forall>call\<in>set (drop (length (optimizeCalls st)) (optimizeCalls st')).
            tx_minSharesOut (snd call) = 0
            \<and> (minSharesOut p = of_nat (tx_minSharesOut (snd call))
                 \<longrightarrow> optimizePosition ext sender idx p s \<noteq> Inl (Require ''Insufficient shares''))"
proof
  fix call
  assume c: "call \<in> set (drop (length (optimizeCalls st)) (optimizeCalls st'))"
  from new_call_target [OF run c] have zero: "tx_minSharesOut (snd call) = 0" ..
  then show "tx_minSharesOut (snd call) = 0
            \<and> (minSharesOut p = of_nat (tx_minSharesOut (snd call))
                 \<longrightarrow> optimizePosition ext sender idx p s \<noteq> Inl (Require ''Insufficient shares''))"
    by (simp add: zero_floor_never_binds)
qed

theorem service_sets_no_slippage_floor_witness:
  "drop (length (optimizeCalls fresh))
     (optimizeCalls (snd (optimizePosition_service calm (1 / 2) ''0xoptimizer'' ''0xu1'' 0 fresh)))
     = [(0, \<lparr>tx_routers = [], tx_calldatas = [], tx_inputTokens = [], tx_outputTokens = [],
              tx_inputAmounts = [], tx_targetVault = secondVault, tx_minSharesOut = 0\<rparr>)]
   \<and> list_all (\<lambda>call. tx_minSharesOut (snd call) = 0)
        (drop (length (optimizeCalls fresh))
          (optimizeCalls (snd (optimizePosition_service calm (1 / 2) ''0xoptimizer'' ''0xu1'' 0 fresh))))
   \<and> minSharesOut noLegs = 0
   \<and> optimizePosition toy_chain alice 0 noLegs (toy_ledger [posA 5] strayB)
        \<noteq> Inl (Require ''Insufficient shares'')"
  using service_sets_no_slippage_floor
    [where env = calm and t = "1 / 2" and oc = "''0xoptimizer''" and u = "''0xu1''" and i = 0
       and st = fresh and p = noLegs and ext = toy_chain and sender = alice and idx = 0
       and s = "toy_ledger [posA 5] strayB", OF surjective_pairing]
  by (simp add: calm_call noLegs_def)

end
